theory Spec2Isabelle
  imports Complex_Main "HOL-Library.AList"
begin

section \<open>JavaScript values\<close>

text \<open>
  A JavaScript string is a sequence of UTF-16 code units; \<open>length\<close> counts code units.
  String literals of the source that are plain ASCII are written with \<open>lit\<close>.
\<close>

type_synonym jsstr = "nat list"

definition lit :: "string \<Rightarrow> jsstr" where
  "lit s = map of_char s"

text \<open>
  Numbers: the finite values are read as reals (every double is one), with the two
  infinities and NaN apart. The sign of zero never reaches a displayed value here and is
  not kept. \<open>Math.min\<close>, \<open>Math.max\<close> and \<open>Math.round\<close> are exact on doubles.
\<close>

datatype jsnum = NaN | NegInf | Fin real | PosInf

fun Math_min :: "jsnum \<Rightarrow> jsnum \<Rightarrow> jsnum" where
  "Math_min NaN _ = NaN"
| "Math_min _ NaN = NaN"
| "Math_min NegInf _ = NegInf"
| "Math_min _ NegInf = NegInf"
| "Math_min PosInf y = y"
| "Math_min x PosInf = x"
| "Math_min (Fin a) (Fin b) = Fin (min a b)"

fun Math_max :: "jsnum \<Rightarrow> jsnum \<Rightarrow> jsnum" where
  "Math_max NaN _ = NaN"
| "Math_max _ NaN = NaN"
| "Math_max PosInf _ = PosInf"
| "Math_max _ PosInf = PosInf"
| "Math_max NegInf y = y"
| "Math_max x NegInf = x"
| "Math_max (Fin a) (Fin b) = Fin (max a b)"

fun Math_round :: "jsnum \<Rightarrow> jsnum" where
  "Math_round (Fin a) = Fin (of_int \<lfloor>a + 1 / 2\<rfloor>)"
| "Math_round x = x"

text \<open>The values a parsed JSON body can hold, and \<open>undefined\<close>.\<close>

datatype jsval =
    Undefined
  | Null
  | Bool bool
  | Number jsnum
  | Str jsstr
  | Array "jsval list"
  | Object "(jsstr \<times> jsval) list"

fun truthy :: "jsval \<Rightarrow> bool" where
  "truthy Undefined = False"
| "truthy Null = False"
| "truthy (Bool b) = b"
| "truthy (Number NaN) = False"
| "truthy (Number (Fin a)) = (a \<noteq> 0)"
| "truthy (Number _) = True"
| "truthy (Str s) = (s \<noteq> [])"
| "truthy (Array _) = True"
| "truthy (Object _) = True"

text \<open>What a handler can catch.\<close>

datatype exn =
    NetworkFailure            \<comment> \<open>\<open>fetch\<close> rejected\<close>
  | JsonSyntaxError           \<comment> \<open>\<open>response.json()\<close> rejected\<close>
  | TypeError                 \<comment> \<open>property read on \<open>null\<close>/\<open>undefined\<close>, or call of a non-function\<close>
  | ErrorOf jsval             \<comment> \<open>\<open>new Error(v)\<close>\<close>
  | HttpStatusError           \<comment> \<open>\<open>new Error(`HTTP ${response.status}: ${response.statusText}`)\<close>\<close>
  | LoadSessionsError         \<comment> \<open>\<open>new Error('Erro ao carregar sess\~oes')\<close>\<close>
  | InvalidServerResponse     \<comment> \<open>\<open>new Error('Servidor retornou resposta inv\'alida')\<close>\<close>

text \<open>
  \<open>v.k\<close> for one of the field names the source reads (none of them is a built-in
  property): a \<open>TypeError\<close> on \<open>null\<close> and \<open>undefined\<close>, the member of an object,
  \<open>undefined\<close> otherwise.
\<close>

fun get_prop :: "jsval \<Rightarrow> string \<Rightarrow> exn + jsval" where
  "get_prop Undefined k = Inl TypeError"
| "get_prop Null k = Inl TypeError"
| "get_prop (Object kvs) k = Inr (case map_of kvs (lit k) of None \<Rightarrow> Undefined | Some v \<Rightarrow> v)"
| "get_prop v k = Inr Undefined"

text \<open>The same read where the receiver is already known not to be \<open>null\<close>/\<open>undefined\<close>.\<close>

definition member :: "jsval \<Rightarrow> string \<Rightarrow> jsval" where
  "member v k = (case get_prop v k of Inl e \<Rightarrow> Undefined | Inr x \<Rightarrow> x)"

text \<open>
  The outcome of \<open>await fetch(...)\<close>: the promise rejects, or a response arrives with its
  \<open>ok\<close> flag, whether its content type contains \<open>application/json\<close>, and its body parsed
  as JSON (\<open>None\<close> when the body is not JSON).
\<close>

datatype reply = NetworkError | Response (ok: bool) (json_content_type: bool) (body: "jsval option")

text \<open>\<open>await fetch(...)\<close> followed by \<open>await response.json()\<close>.\<close>

fun json_of :: "reply \<Rightarrow> exn + jsval" where
  "json_of NetworkError = Inl NetworkFailure"
| "json_of (Response k c None) = Inl JsonSyntaxError"
| "json_of (Response k c (Some v)) = Inr v"

section \<open>The state of the page\<close>

record jsfile =
  file_name :: jsstr
  file_size :: nat
  file_type :: jsstr

datatype request =
    PostUpload jsfile
  | PostAnalyze "(jsstr \<times> jsstr) list"
  | PostAnalyzeCompleta jsstr jsstr
  | GetProgress jsval
  | GetSessions
  | GetStatus jsval
  | PostPause jsval
  | PostResume jsval
  | PostSave jsval
  | PostContinue jsval
  | DeleteSession jsval
  | PostClear

datatype severity = Info | Success | Warning | Error

text \<open>One constructor for each message text of the source, with what it interpolates.\<close>

datatype msg =
    FileTooLarge                \<comment> \<open>'Arquivo muito grande. M\'aximo 10MB.'\<close>
  | FileTypeUnsupported         \<comment> \<open>'Tipo de arquivo n\~ao suportado.'\<close>
  | UploadDone jsstr            \<comment> \<open>`Arquivo ${file.name} enviado com sucesso!`\<close>
  | UploadRefused jsval         \<comment> \<open>`Erro no upload: ${result.error}`\<close>
  | UploadFailed exn            \<comment> \<open>`Erro no upload: ${error.message}`\<close>
  | FormNotFound                \<comment> \<open>'Formul\'ario n\~ao encontrado'\<close>
  | AnalysisStarted jsval       \<comment> \<open>`An\'alise iniciada! Sess\~ao: ${result.session_id}`\<close>
  | AnalysisFailed exn          \<comment> \<open>`Erro na an\'alise: ${error.message}`\<close>
  | FillSegment                 \<comment> \<open>'Por favor, preencha o segmento'\<close>
  | SegmentTooShort             \<comment> \<open>'Segmento deve ter pelo menos 3 caracteres'\<close>
  | NoSessionToPause            \<comment> \<open>'Nenhuma sess\~ao ativa para pausar'\<close>
  | SessionPaused               \<comment> \<open>'Sess\~ao pausada com sucesso'\<close>
  | PauseFailed exn             \<comment> \<open>`Erro ao pausar: ${error.message}`\<close>
  | NoSessionToResume           \<comment> \<open>'Nenhuma sess\~ao para resumir'\<close>
  | SessionResumed              \<comment> \<open>'Sess\~ao resumida com sucesso'\<close>
  | ResumeFailed exn            \<comment> \<open>`Erro ao resumir: ${error.message}`\<close>
  | NoSessionToSave             \<comment> \<open>'Nenhuma sess\~ao para salvar'\<close>
  | SessionSaved                \<comment> \<open>'Sess\~ao salva com sucesso'\<close>
  | SaveFailed exn              \<comment> \<open>`Erro ao salvar: ${error.message}`\<close>
  | SessionContinued            \<comment> \<open>'Sess\~ao continuada com sucesso'\<close>
  | ContinueFailed exn          \<comment> \<open>`Erro ao continuar: ${error.message}`\<close>
  | AnalysisCompleted           \<comment> \<open>'An\'alise conclu\'ida com sucesso!'\<close>
  | ProgressError jsval         \<comment> \<open>`Erro: ${data.error}`\<close>
  | RestoredRunning             \<comment> \<open>'Sess\~ao anterior restaurada e em execu\c{c}\~ao'\<close>
  | RestoredPaused              \<comment> \<open>'Sess\~ao anterior encontrada (pausada)'\<close>
  | LastSessionCompleted        \<comment> \<open>'\'Ultima sess\~ao foi conclu\'ida'\<close>
  | LastSessionHadError         \<comment> \<open>'\'Ultima sess\~ao teve erro'\<close>
  | SessionDeleted              \<comment> \<open>'Sess\~ao exclu\'ida com sucesso'\<close>
  | DeleteFailed exn            \<comment> \<open>`Erro ao excluir: ${error.message}`\<close>
  | AllSessionsDeleted          \<comment> \<open>'Todas as sess\~oes foram exclu\'idas'\<close>
  | ClearFailed exn             \<comment> \<open>`Erro ao limpar sess\~oes: ${error.message}`\<close>
  | FillRequiredFields          \<comment> \<open>'Por favor, preencha todos os campos obrigat\'orios'\<close>
  | StartingAnalysis            \<comment> \<open>'Iniciando an\'alise avan\c{c}ada...'\<close>
  | AnalysisStartedOk           \<comment> \<open>'An\'alise iniciada com sucesso!'\<close>
  | GenericError exn            \<comment> \<open>`Erro: ${error.message}`\<close>
  | AnalysisDone                \<comment> \<open>'An\'alise conclu\'ida!'\<close>
  | MonitoringFailed exn        \<comment> \<open>`Erro no monitoramento: ${error.message}`\<close>

record notification =
  n_type :: severity
  n_message :: msg

datatype button = PauseBtn | ResumeBtn | SaveBtn

datatype action_button = ContinueButton jsval | ViewResultsButton jsval | DeleteButton jsval

text \<open>
  One entry of the rendered session list: the key of the session, whether the entry has
  the class \<open>active\<close>, and its action buttons. The rest of the markup, and the string
  conversions of what it interpolates, are not kept.
\<close>

record session_item =
  item_id :: jsval
  item_active :: bool
  item_actions :: "action_button list"

text \<open>The writes to the document, in the order the code makes them.\<close>

datatype dom_write =
    ProgressFillWidth jsnum             \<comment> \<open>\<open>.progress-fill\<close> \<open>style.width\<close>, in percent\<close>
  | ProgressPercentageText jsnum        \<comment> \<open>\<open>.progress-percentage\<close> \<open>textContent\<close>, in percent\<close>
  | ProgressStatusHtml jsval "jsval option"  \<comment> \<open>message, estimated time when shown\<close>
  | DocumentTitle jsnum                 \<comment> \<open>\<open>`${Math.round(percentage)}% - ARQV30 Enhanced`\<close>\<close>
  | ProgressContainerDisplay bool       \<comment> \<open>\<open>#progressContainer\<close> block or none\<close>
  | ProgressContainerScroll
  | ButtonDisplay button bool           \<comment> \<open>inline-flex or none\<close>
  | SessionsListHtml "session_item list"
  | EmptySessionsListHtml
  | SegmentoFocus
  | ProgressBarWidth jsval              \<comment> \<open>\<open>#progress-bar\<close> \<open>style.width\<close>: \<open>`${percentage}%`\<close>\<close>
  | ProgressTextContent jsval jsval     \<comment> \<open>\<open>#progress-text\<close>: step, estimated time\<close>
  | ProgressSectionDisplay bool         \<comment> \<open>\<open>#progress-section\<close> block or none\<close>
  | ProgressSectionScroll
  | StartButtonDisabled bool
  | AnalysisControlsAdded

datatype log_entry =
    LogAnalysisError exn          \<comment> \<open>\<open>console.error('Erro na an\'alise:', error)\<close>\<close>
  | LogNoSessions                 \<comment> \<open>\<open>console.warn('Nenhuma sess\~ao encontrada')\<close>\<close>
  | LogLoadSessionsError exn      \<comment> \<open>\<open>console.error('Erro ao carregar sess\~oes:', error)\<close>\<close>
  | LogMonitoringError exn        \<comment> \<open>\<open>console.error('Erro no monitoramento:', error)\<close>\<close>
  | LogStatusError exn            \<comment> \<open>\<open>console.error('Erro ao verificar status da sess\~ao:', error)\<close>\<close>
  | LogStartingAnalysis           \<comment> \<open>\<open>console.log\<close> of the free function \<open>startAnalysis\<close>\<close>
  | LogNotJson                    \<comment> \<open>\<open>console.error('Resposta n\~ao \'e JSON:', ...)\<close>\<close>
  | LogMonitorFailure exn         \<comment> \<open>\<open>console.error('Falha ao monitorar progresso:', error)\<close>\<close>

text \<open>
  The fields of \<open>ModernAnalysisSystem\<close>, the two module-level variables of the free
  functions, and what the browser holds: the running interval timers of the progress
  pollers (handle and callback), the handle the next
  \<open>setInterval\<close> returns (handles are positive, hence truthy), \<open>localStorage\<close>, and the
  logs of the requests sent, the document writes and the console.
\<close>

datatype callback =
    ClassTick           \<comment> \<open>the callback of \<open>ModernAnalysisSystem.startProgressMonitoring\<close>\<close>
  | GlobalTick jsval    \<comment> \<open>the callback of the free function, with the \<open>sessionId\<close> it closes over\<close>

record sys =
  currentSessionId :: jsval
  progressInterval :: "nat option"
  sessions :: "(jsval \<times> jsval) list"
  isPaused :: bool
  notifications :: "notification list"
  global_currentSessionId :: jsval
  global_progressInterval :: "nat option"
  global_notifications :: "notification list"
  timers :: "(nat \<times> callback) list"
  nextTimer :: nat
  localStorage :: "(jsstr \<times> jsstr) list"
  requests :: "request list"
  dom :: "dom_write list"
  console :: "log_entry list"

text \<open>
  What a handler finds in the document when it runs, and the two pieces of the language's
  conversions that are not spelled out here: the digits of a number (\<open>Number::toString\<close>)
  and the number a string denotes (\<open>StringToNumber\<close>). Neither can throw.
\<close>

record env =
  hasForm :: bool                           \<comment> \<open>\<open>#analysisForm\<close>\<close>
  formEntries :: "(jsstr \<times> jsstr) list"     \<comment> \<open>\<open>new FormData(form).entries()\<close>\<close>
  segmentoByName :: "jsstr option"          \<comment> \<open>value of \<open>[name="segmento"]\<close>\<close>
  segmentoById :: "jsstr option"            \<comment> \<open>value of \<open>#segmento\<close>\<close>
  produtoById :: "jsstr option"             \<comment> \<open>value of \<open>#produto\<close>\<close>
  hasProgressFill :: bool
  hasProgressPercentage :: bool
  hasProgressStatus :: bool
  hasProgressContainer :: bool
  hasSessionsList :: bool
  hasButton :: "button \<Rightarrow> bool"
  hasProgressBar :: bool
  hasProgressText :: bool
  hasProgressSection :: bool
  hasStartButton :: bool
  hasAnalysisControls :: bool
  numberToString :: "jsnum \<Rightarrow> jsstr"
  stringToNumber :: "jsstr \<Rightarrow> jsnum"

section \<open>Conversions that can throw\<close>

text \<open>
  A template literal converts what it interpolates with \<open>ToString\<close>, \<open>Math.min\<close> and
  \<open>Math.round\<close> convert their argument with \<open>ToNumber\<close>, \<open>new Error(v)\<close> and
  \<open>localStorage.setItem\<close> convert with \<open>ToString\<close>. On a parsed JSON value both
  conversions go through \<open>toString\<close>: an object that has a member named \<open>toString\<close>
  (never a function in JSON) has no callable conversion left and the conversion throws a
  \<open>TypeError\<close>; an array joins the conversions of its elements, so it throws when one of
  them does. \<open>convertible v\<close> says that the conversions of \<open>v\<close> return.
\<close>

fun convertible :: "jsval \<Rightarrow> bool" and convertible_elements :: "jsval list \<Rightarrow> bool" where
  "convertible (Array xs) = convertible_elements xs"
| "convertible (Object kvs) = (map_of kvs (lit ''toString'') = None)"
| "convertible Undefined = True"
| "convertible Null = True"
| "convertible (Bool b) = True"
| "convertible (Number n) = True"
| "convertible (Str s) = True"
| "convertible_elements [] = True"
| "convertible_elements (x # xs) = (convertible x \<and> convertible_elements xs)"

fun join_strings :: "jsstr list \<Rightarrow> jsstr" where
  "join_strings [] = []"
| "join_strings [a] = a"
| "join_strings (a # b # rest) = a @ [44] @ join_strings (b # rest)"

text \<open>What \<open>ToString\<close> and \<open>ToNumber\<close> return on a convertible value.\<close>

fun ToString :: "env \<Rightarrow> jsval \<Rightarrow> jsstr" and ToString_elements :: "env \<Rightarrow> jsval list \<Rightarrow> jsstr list" where
  "ToString e Undefined = lit ''undefined''"
| "ToString e Null = lit ''null''"
| "ToString e (Bool b) = (if b then lit ''true'' else lit ''false'')"
| "ToString e (Number n) = numberToString e n"
| "ToString e (Str s) = s"
| "ToString e (Array xs) = join_strings (ToString_elements e xs)"
| "ToString e (Object kvs) = lit ''[object Object]''"
| "ToString_elements e [] = []"
| "ToString_elements e (x # xs) =
     (if x = Undefined \<or> x = Null then [] else ToString e x) # ToString_elements e xs"

fun ToNumber :: "env \<Rightarrow> jsval \<Rightarrow> jsnum" where
  "ToNumber e Undefined = NaN"
| "ToNumber e Null = Fin 0"
| "ToNumber e (Bool b) = Fin (if b then 1 else 0)"
| "ToNumber e (Number n) = n"
| "ToNumber e (Str s) = stringToNumber e s"
| "ToNumber e (Array xs) = stringToNumber e (ToString e (Array xs))"
| "ToNumber e (Object kvs) = NaN"

text \<open>
  \<open>new Error(v)\<close> converts \<open>v\<close> to the message: where that throws, the \<open>TypeError\<close> is
  what the \<open>throw\<close> statement raises.
\<close>

definition new_Error :: "jsval \<Rightarrow> exn" where
  "new_Error v = (if convertible v then ErrorOf v else TypeError)"

section \<open>Exceptions and effects\<close>

text \<open>
  A block that can throw yields the exception, if any, and the state reached when it
  threw or finished: what was done before a \<open>throw\<close> stays done.
\<close>

type_synonym outcome = "exn option \<times> sys"

definition and_then :: "outcome \<Rightarrow> (sys \<Rightarrow> outcome) \<Rightarrow> outcome" where
  "and_then p f = (case p of (None, s) \<Rightarrow> f s | (Some x, s) \<Rightarrow> (Some x, s))"

definition try_catch :: "outcome \<Rightarrow> (exn \<Rightarrow> sys \<Rightarrow> sys) \<Rightarrow> sys" where
  "try_catch p h = (case p of (None, s) \<Rightarrow> s | (Some x, s) \<Rightarrow> h x s)"

definition fetch :: "request \<Rightarrow> sys \<Rightarrow> sys" where
  "fetch r s = s\<lparr>requests := requests s @ [r]\<rparr>"

section \<open>Notifications\<close>

text \<open>
  \<open>showNotification\<close> of the class appends the element to \<open>this.notifications\<close>; the
  removal after the notification's lifetime is a later timer event. The message is a
  string when the method is called: an interpolation in it is converted by the caller.
\<close>

definition showNotification :: "msg \<Rightarrow> severity \<Rightarrow> sys \<Rightarrow> sys" where
  "showNotification m t s =
     s\<lparr>notifications := notifications s @ [\<lparr>n_type = t, n_message = m\<rparr>]\<rparr>"

text \<open>The free function \<open>showNotification\<close> appends to \<open>#notification-container\<close>.\<close>

definition global_showNotification :: "msg \<Rightarrow> severity \<Rightarrow> sys \<Rightarrow> sys" where
  "global_showNotification m t s =
     s\<lparr>global_notifications := global_notifications s @ [\<lparr>n_type = t, n_message = m\<rparr>]\<rparr>"

section \<open>File upload\<close>

definition maxSize :: nat where
  "maxSize = 10 * 1024 * 1024"

definition allowedTypes :: "jsstr list" where
  "allowedTypes =
     [lit ''application/pdf'',
      lit ''text/plain'',
      lit ''application/msword'',
      lit ''application/vnd.openxmlformats-officedocument.wordprocessingml.document'']"

definition validateFile :: "jsfile \<Rightarrow> sys \<Rightarrow> bool \<times> sys" where
  "validateFile f s =
     (if file_size f > maxSize then (False, showNotification FileTooLarge Warning s)
      else if file_type f \<notin> set allowedTypes
      then (False, showNotification FileTypeUnsupported Warning s)
      else (True, s))"

text \<open>
  The \<open>try\<close> block of \<open>uploadFile\<close>, with the reply to its request. The class has no
  method \<open>addFileToList\<close>, so the call after the success notification throws a
  \<open>TypeError\<close>.
\<close>

definition uploadFile_try :: "reply \<Rightarrow> jsfile \<Rightarrow> sys \<Rightarrow> outcome" where
  "uploadFile_try r f s =
     (let s1 = fetch (PostUpload f) s in
      case json_of r of
        Inl x \<Rightarrow> (Some x, s1)
      | Inr result \<Rightarrow>
         (case get_prop result ''success'' of
            Inl x \<Rightarrow> (Some x, s1)
          | Inr success \<Rightarrow>
              if truthy success
              then (Some TypeError, showNotification (UploadDone (file_name f)) Success s1)
              else if convertible (member result ''error'')
              then (None, showNotification (UploadRefused (member result ''error'')) Error s1)
              else (Some TypeError, s1)))"

definition uploadFile :: "reply \<Rightarrow> jsfile \<Rightarrow> sys \<Rightarrow> sys" where
  "uploadFile r f s =
     try_catch (uploadFile_try r f s) (\<lambda>x. showNotification (UploadFailed x) Error)"

text \<open>
  \<open>handleFiles\<close> of the class: \<open>files.forEach\<close>, each accepted file uploaded; \<open>replies\<close>
  gives the reply each upload receives. The requests leave in the order of the list; each
  reply is handled here before the next file is looked at.
\<close>

fun handleFiles :: "(jsfile \<Rightarrow> reply) \<Rightarrow> jsfile list \<Rightarrow> sys \<Rightarrow> sys" where
  "handleFiles replies [] s = s"
| "handleFiles replies (f # files) s =
     (case validateFile f s of
        (valid, s1) \<Rightarrow>
          handleFiles replies files (if valid then uploadFile (replies f) f s1 else s1))"

section \<open>Timers and storage\<close>

definition setInterval :: "callback \<Rightarrow> sys \<Rightarrow> nat \<times> sys" where
  "setInterval cb s =
     (nextTimer s, s\<lparr>timers := timers s @ [(nextTimer s, cb)], nextTimer := Suc (nextTimer s)\<rparr>)"

definition clearInterval :: "nat option \<Rightarrow> sys \<Rightarrow> sys" where
  "clearInterval h s =
     (case h of None \<Rightarrow> s | Some i \<Rightarrow> s\<lparr>timers := filter (\<lambda>t. fst t \<noteq> i) (timers s)\<rparr>)"

definition setItem :: "jsstr \<Rightarrow> jsstr \<Rightarrow> sys \<Rightarrow> sys" where
  "setItem k v s = s\<lparr>localStorage := AList.update k v (localStorage s)\<rparr>"

definition removeItem :: "jsstr \<Rightarrow> sys \<Rightarrow> sys" where
  "removeItem k s = s\<lparr>localStorage := AList.delete k (localStorage s)\<rparr>"

definition getItem :: "jsstr \<Rightarrow> sys \<Rightarrow> jsstr option" where
  "getItem k s = map_of (localStorage s) k"

definition console_log :: "log_entry \<Rightarrow> sys \<Rightarrow> sys" where
  "console_log l s = s\<lparr>console := console s @ [l]\<rparr>"

definition write_dom :: "dom_write list \<Rightarrow> sys \<Rightarrow> sys" where
  "write_dom ws s = s\<lparr>dom := dom s @ ws\<rparr>"

section \<open>Progress display\<close>

text \<open>
  \<open>updateProgress(percentage, message, totalSteps = 13, estimatedTime = '')\<close>;
  \<open>totalSteps\<close> is not read by the body. The four statements run in order, each
  converting what it displays, so a conversion that throws leaves the earlier writes made.
\<close>

definition updateProgress :: "env \<Rightarrow> jsval \<Rightarrow> jsval \<Rightarrow> jsval \<Rightarrow> sys \<Rightarrow> outcome" where
  "updateProgress e percentage message estimatedTime s =
     (let est = (if estimatedTime = Undefined then Str [] else estimatedTime) in
      and_then (and_then (and_then
        (if hasProgressFill e then
           (if convertible percentage
            then (None, write_dom [ProgressFillWidth
                                     (Math_max (Fin 0) (Math_min (Fin 100) (ToNumber e percentage)))] s)
            else (Some TypeError, s))
         else (None, s))
        (\<lambda>s. if hasProgressPercentage e then
                (if convertible percentage
                 then (None, write_dom [ProgressPercentageText (Math_round (ToNumber e percentage))] s)
                 else (Some TypeError, s))
              else (None, s)))
        (\<lambda>s. if hasProgressStatus e \<and> truthy message then
                (if \<not> convertible message then (Some TypeError, s)
                 else if truthy est then
                   (if convertible est
                    then (None, write_dom [ProgressStatusHtml message (Some est)] s)
                    else (Some TypeError, s))
                 else (None, write_dom [ProgressStatusHtml message None] s))
              else (None, s)))
        (\<lambda>s. if convertible percentage
              then (None, write_dom [DocumentTitle (Math_round (ToNumber e percentage))] s)
              else (Some TypeError, s)))"

definition showProgress :: "env \<Rightarrow> bool \<Rightarrow> sys \<Rightarrow> sys" where
  "showProgress e show s =
     (if hasProgressContainer e
      then write_dom (ProgressContainerDisplay show # (if show then [ProgressContainerScroll] else [])) s
      else s)"

definition updateSessionControls :: "env \<Rightarrow> jsstr \<Rightarrow> sys \<Rightarrow> sys" where
  "updateSessionControls e status s =
     write_dom
       ((if hasButton e PauseBtn then [ButtonDisplay PauseBtn (status = lit ''running'')] else []) @
        (if hasButton e ResumeBtn then [ButtonDisplay ResumeBtn (status = lit ''paused'')] else []) @
        (if hasButton e SaveBtn
         then [ButtonDisplay SaveBtn (status \<in> set [lit ''running'', lit ''paused''])] else []))
       s"

section \<open>Progress monitoring\<close>

definition startProgressMonitoring :: "sys \<Rightarrow> sys" where
  "startProgressMonitoring s =
     (if \<not> truthy (currentSessionId s) then s
      else case setInterval ClassTick s of (h, s1) \<Rightarrow> s1\<lparr>progressInterval := Some h\<rparr>)"

definition stopProgressMonitoring :: "sys \<Rightarrow> sys" where
  "stopProgressMonitoring s =
     (case progressInterval s of
        None \<Rightarrow> s
      | Some h \<Rightarrow> (clearInterval (Some h) s)\<lparr>progressInterval := None\<rparr>)"

section \<open>The session list\<close>

definition getSessionActions :: "jsval \<Rightarrow> jsval \<Rightarrow> exn + action_button list" where
  "getSessionActions session sessionId =
     (case get_prop session ''status'' of
        Inl e \<Rightarrow> Inl e
      | Inr status \<Rightarrow>
          Inr ((if status \<in> set [Str (lit ''paused''), Str (lit ''error''), Str (lit ''saved'')]
                then [ContinueButton sessionId] else []) @
               (if status = Str (lit ''completed'') then [ViewResultsButton sessionId] else []) @
               [DeleteButton sessionId]))"

definition renderEmptySessionsList :: "env \<Rightarrow> sys \<Rightarrow> sys" where
  "renderEmptySessionsList e s =
     (if hasSessionsList e then write_dom [EmptySessionsListHtml] s else s)"

text \<open>The body of \<open>this.sessions.forEach\<close> in \<open>renderSessionsList\<close>, entry by entry.\<close>

fun render_items :: "(jsval \<times> jsval) list \<Rightarrow> exn + session_item list" where
  "render_items [] = Inr []"
| "render_items ((sessionId, session) # rest) =
     (case get_prop session ''status'' of
        Inl e \<Rightarrow> Inl e
      | Inr status \<Rightarrow>
         (case getSessionActions session sessionId of
            Inl e \<Rightarrow> Inl e
          | Inr actions \<Rightarrow>
             (case render_items rest of
                Inl e \<Rightarrow> Inl e
              | Inr items \<Rightarrow>
                  Inr (\<lparr>item_id = sessionId,
                        item_active = (status = Str (lit ''running'')),
                        item_actions = actions\<rparr> # items))))"

text \<open>\<open>Inl\<close>: the rendering threw before it wrote anything.\<close>

definition renderSessionsList :: "env \<Rightarrow> sys \<Rightarrow> exn + sys" where
  "renderSessionsList e s =
     (if \<not> hasSessionsList e then Inr s
      else if sessions s = [] then Inr (renderEmptySessionsList e s)
      else case render_items (sessions s) of
             Inl x \<Rightarrow> Inl x
           | Inr items \<Rightarrow> Inr (write_dom [SessionsListHtml items] s))"

text \<open>
  \<open>result.sessions.forEach(session => this.sessions.set(session.session_id, session))\<close>:
  the entries set before a throw stay in the map.
\<close>

fun set_sessions :: "jsval list \<Rightarrow> (jsval \<times> jsval) list \<Rightarrow> exn option \<times> (jsval \<times> jsval) list" where
  "set_sessions [] m = (None, m)"
| "set_sessions (session # rest) m =
     (case get_prop session ''session_id'' of
        Inl e \<Rightarrow> (Some e, m)
      | Inr k \<Rightarrow> set_sessions rest (AList.update k session m))"

definition loadSavedSessions_catch :: "env \<Rightarrow> exn \<Rightarrow> sys \<Rightarrow> sys" where
  "loadSavedSessions_catch e x s = renderEmptySessionsList e (console_log (LogLoadSessionsError x) s)"

definition loadSavedSessions :: "env \<Rightarrow> reply \<Rightarrow> sys \<Rightarrow> sys" where
  "loadSavedSessions e r s =
     (let s1 = fetch GetSessions s in
      case r of
        NetworkError \<Rightarrow> loadSavedSessions_catch e NetworkFailure s1
      | Response k c b \<Rightarrow>
          if \<not> k then loadSavedSessions_catch e LoadSessionsError s1
          else case b of
            None \<Rightarrow> loadSavedSessions_catch e JsonSyntaxError s1
          | Some result \<Rightarrow>
             (case get_prop result ''success'' of
                Inl x \<Rightarrow> loadSavedSessions_catch e x s1
              | Inr success \<Rightarrow>
                  if truthy success then
                    (let s2 = s1\<lparr>sessions := []\<rparr> in
                     case member result ''sessions'' of
                       Array xs \<Rightarrow>
                         (case set_sessions xs [] of
                            (Some x, m) \<Rightarrow> loadSavedSessions_catch e x (s2\<lparr>sessions := m\<rparr>)
                          | (None, m) \<Rightarrow>
                             (case renderSessionsList e (s2\<lparr>sessions := m\<rparr>) of
                                Inl x \<Rightarrow> loadSavedSessions_catch e x (s2\<lparr>sessions := m\<rparr>)
                              | Inr s3 \<Rightarrow> s3))
                     | _ \<Rightarrow> loadSavedSessions_catch e TypeError s2)
                  else renderEmptySessionsList e (console_log LogNoSessions s1)))"

text \<open>
  The \<open>try\<close> block of the interval callback of \<open>startProgressMonitoring\<close>, for one
  run: \<open>r\<close> is the reply to the progress request, \<open>l\<close> the reply to the session list
  request made on completion. The request URL interpolates \<open>this.currentSessionId\<close>.
\<close>

definition progressTick_try :: "env \<Rightarrow> reply \<Rightarrow> reply \<Rightarrow> sys \<Rightarrow> outcome" where
  "progressTick_try e r l s =
     (if \<not> convertible (currentSessionId s) then (Some TypeError, s)
      else let s1 = fetch (GetProgress (currentSessionId s)) s in
        case json_of r of
          Inl x \<Rightarrow> (Some x, s1)
        | Inr data \<Rightarrow>
           (case get_prop data ''success'' of
              Inl x \<Rightarrow> (Some x, s1)
            | Inr success \<Rightarrow>
                if truthy success then
                  and_then
                    (updateProgress e (member data ''percentage'') (member data ''current_step'')
                       (member data ''estimated_time'') s1)
                    (\<lambda>s2. if truthy (member data ''completed'')
                          then (None,
                                loadSavedSessions e l
                                  (removeItem (lit ''currentSessionId'')
                                    (updateSessionControls e (lit ''completed'')
                                      (showProgress e False
                                        (showNotification AnalysisCompleted Success
                                          (stopProgressMonitoring s2))))))
                          else (None, s2))
                else if truthy (member data ''error'') then
                  (let s2 = stopProgressMonitoring s1 in
                   if convertible (member data ''error'')
                   then (None, showProgress e False
                                 (showNotification (ProgressError (member data ''error'')) Error s2))
                   else (Some TypeError, s2))
                else (None, s1)))"

definition progressTick :: "env \<Rightarrow> reply \<Rightarrow> reply \<Rightarrow> sys \<Rightarrow> sys" where
  "progressTick e r l s =
     try_catch (progressTick_try e r l s) (\<lambda>x. console_log (LogMonitoringError x))"

section \<open>Starting an analysis\<close>

text \<open>\<open>String.prototype.trim\<close> strips white space and line terminators at both ends.\<close>

definition isWhiteSpace :: "nat \<Rightarrow> bool" where
  "isWhiteSpace c =
     (c \<in> set [9, 10, 11, 12, 13, 32, 160, 5760, 8232, 8233, 8239, 8287, 12288, 65279]
      \<or> (8192 \<le> c \<and> c \<le> 8202))"

definition trim :: "jsstr \<Rightarrow> jsstr" where
  "trim v = rev (dropWhile isWhiteSpace (rev (dropWhile isWhiteSpace v)))"

text \<open>
  \<open>validateForm\<close>: \<open>segmentoByName\<close> is the value of the element \<open>[name="segmento"]\<close>,
  a form control, or \<open>None\<close> when the document has no such element.
\<close>

definition validateForm :: "env \<Rightarrow> sys \<Rightarrow> bool \<times> sys" where
  "validateForm e s =
     (case segmentoByName e of
        None \<Rightarrow> (False, showNotification FillSegment Warning s)
      | Some v \<Rightarrow>
          if trim v = [] then (False, write_dom [SegmentoFocus] (showNotification FillSegment Warning s))
          else if length (trim v) < 3
          then (False, write_dom [SegmentoFocus] (showNotification SegmentTooShort Warning s))
          else (True, s))"

definition startAnalysis_catch :: "env \<Rightarrow> exn \<Rightarrow> sys \<Rightarrow> sys" where
  "startAnalysis_catch e x s =
     showProgress e False (showNotification (AnalysisFailed x) Error (console_log (LogAnalysisError x) s))"

text \<open>
  The asynchronous methods are modelled as run to completion, with the reply their
  request receives as an argument; what other handlers do while a request is in
  flight is not part of a single run.
\<close>

definition startAnalysis_try :: "env \<Rightarrow> reply \<Rightarrow> sys \<Rightarrow> outcome" where
  "startAnalysis_try e r s =
     and_then
       (updateProgress e (Number (Fin 0))
          (Str (lit ''Iniciando an'' @ [225] @ lit ''lise...'')) Undefined
          (showProgress e True s))
       (\<lambda>s0. let s1 = fetch (PostAnalyze (formEntries e)) s0 in
          case r of
            NetworkError \<Rightarrow> (Some NetworkFailure, s1)
          | Response k c b \<Rightarrow>
              if \<not> k then (Some HttpStatusError, s1)
              else case b of
                None \<Rightarrow> (Some JsonSyntaxError, s1)
              | Some result \<Rightarrow>
                 (case get_prop result ''success'' of
                    Inl x \<Rightarrow> (Some x, s1)
                  | Inr success \<Rightarrow>
                      if truthy success then
                        (let sid = member result ''session_id'';
                             s2 = s1\<lparr>currentSessionId := sid\<rparr>
                         in if convertible sid
                            then (None,
                                  startProgressMonitoring
                                    (setItem (lit ''currentSessionId'') (ToString e sid)
                                      (showNotification (AnalysisStarted sid) Success s2)))
                            else (Some TypeError, s2))
                      else (Some (new_Error
                                   (if truthy (member result ''error'') then member result ''error''
                                    else Str (lit ''Erro desconhecido''))), s1)))"

definition startAnalysis :: "env \<Rightarrow> reply \<Rightarrow> sys \<Rightarrow> sys" where
  "startAnalysis e r s =
     (if \<not> hasForm e then showNotification FormNotFound Error s
      else case validateForm e s of
        (valid, s0) \<Rightarrow>
          if \<not> valid then s0
          else try_catch (startAnalysis_try e r s0) (startAnalysis_catch e))"

section \<open>Session lifecycle actions\<close>

text \<open>Each request URL interpolates the session identifier inside the \<open>try\<close> block.\<close>

definition pauseSession_try :: "env \<Rightarrow> reply \<Rightarrow> sys \<Rightarrow> outcome" where
  "pauseSession_try e r s =
     (if \<not> convertible (currentSessionId s) then (Some TypeError, s)
      else let s1 = fetch (PostPause (currentSessionId s)) s in
        case json_of r of
          Inl x \<Rightarrow> (Some x, s1)
        | Inr result \<Rightarrow>
           (case get_prop result ''success'' of
              Inl x \<Rightarrow> (Some x, s1)
            | Inr success \<Rightarrow>
                if truthy success
                then (None, updateSessionControls e (lit ''paused'')
                              (showNotification SessionPaused Success
                                (stopProgressMonitoring (s1\<lparr>isPaused := True\<rparr>))))
                else (Some (new_Error (member result ''error'')), s1)))"

definition pauseSession :: "env \<Rightarrow> reply \<Rightarrow> sys \<Rightarrow> sys" where
  "pauseSession e r s =
     (if \<not> truthy (currentSessionId s) then showNotification NoSessionToPause Warning s
      else try_catch (pauseSession_try e r s) (\<lambda>x. showNotification (PauseFailed x) Error))"

definition resumeSession_try :: "env \<Rightarrow> reply \<Rightarrow> sys \<Rightarrow> outcome" where
  "resumeSession_try e r s =
     (if \<not> convertible (currentSessionId s) then (Some TypeError, s)
      else let s1 = fetch (PostResume (currentSessionId s)) s in
        case json_of r of
          Inl x \<Rightarrow> (Some x, s1)
        | Inr result \<Rightarrow>
           (case get_prop result ''success'' of
              Inl x \<Rightarrow> (Some x, s1)
            | Inr success \<Rightarrow>
                if truthy success
                then (None, updateSessionControls e (lit ''running'')
                              (showNotification SessionResumed Success
                                (startProgressMonitoring (s1\<lparr>isPaused := False\<rparr>))))
                else (Some (new_Error (member result ''error'')), s1)))"

definition resumeSession :: "env \<Rightarrow> reply \<Rightarrow> sys \<Rightarrow> sys" where
  "resumeSession e r s =
     (if \<not> truthy (currentSessionId s) then showNotification NoSessionToResume Warning s
      else try_catch (resumeSession_try e r s) (\<lambda>x. showNotification (ResumeFailed x) Error))"

text \<open>\<open>saveSession\<close>: \<open>l\<close> is the reply to the session list request made after a success.\<close>

definition saveSession_try :: "env \<Rightarrow> reply \<Rightarrow> reply \<Rightarrow> sys \<Rightarrow> outcome" where
  "saveSession_try e r l s =
     (if \<not> convertible (currentSessionId s) then (Some TypeError, s)
      else let s1 = fetch (PostSave (currentSessionId s)) s in
        case json_of r of
          Inl x \<Rightarrow> (Some x, s1)
        | Inr result \<Rightarrow>
           (case get_prop result ''success'' of
              Inl x \<Rightarrow> (Some x, s1)
            | Inr success \<Rightarrow>
                if truthy success
                then (None, loadSavedSessions e l (showNotification SessionSaved Success s1))
                else (Some (new_Error (member result ''error'')), s1)))"

definition saveSession :: "env \<Rightarrow> reply \<Rightarrow> reply \<Rightarrow> sys \<Rightarrow> sys" where
  "saveSession e r l s =
     (if \<not> truthy (currentSessionId s) then showNotification NoSessionToSave Warning s
      else try_catch (saveSession_try e r l s) (\<lambda>x. showNotification (SaveFailed x) Error))"

definition continueSession_catch :: "env \<Rightarrow> exn \<Rightarrow> sys \<Rightarrow> sys" where
  "continueSession_catch e x s = showProgress e False (showNotification (ContinueFailed x) Error s)"

definition continueSession_try :: "env \<Rightarrow> reply \<Rightarrow> jsval \<Rightarrow> sys \<Rightarrow> outcome" where
  "continueSession_try e r sessionId s =
     and_then
       (updateProgress e (Number (Fin 0))
          (Str (lit ''Continuando sess'' @ [227] @ lit ''o...'')) Undefined
          (showProgress e True s))
       (\<lambda>s0. if \<not> convertible sessionId then (Some TypeError, s0)
          else let s1 = fetch (PostContinue sessionId) s0 in
            case json_of r of
              Inl x \<Rightarrow> (Some x, s1)
            | Inr result \<Rightarrow>
               (case get_prop result ''success'' of
                  Inl x \<Rightarrow> (Some x, s1)
                | Inr success \<Rightarrow>
                    if truthy success
                    then (None, startProgressMonitoring
                                  (showNotification SessionContinued Success
                                    (setItem (lit ''currentSessionId'') (ToString e sessionId)
                                      (s1\<lparr>currentSessionId := sessionId\<rparr>))))
                    else (Some (new_Error (member result ''error'')), s1)))"

definition continueSession :: "env \<Rightarrow> reply \<Rightarrow> jsval \<Rightarrow> sys \<Rightarrow> sys" where
  "continueSession e r sessionId s =
     try_catch (continueSession_try e r sessionId s) (continueSession_catch e)"

text \<open>\<open>deleteSession\<close> and \<open>clearAllSessions\<close>: \<open>confirmed\<close> is the user's answer to \<open>confirm\<close>.\<close>

definition deleteSession_try :: "env \<Rightarrow> reply \<Rightarrow> jsval \<Rightarrow> sys \<Rightarrow> outcome" where
  "deleteSession_try e r sessionId s =
     (if \<not> convertible sessionId then (Some TypeError, s)
      else let s1 = fetch (DeleteSession sessionId) s in
        case json_of r of
          Inl x \<Rightarrow> (Some x, s1)
        | Inr result \<Rightarrow>
           (case get_prop result ''success'' of
              Inl x \<Rightarrow> (Some x, s1)
            | Inr success \<Rightarrow>
                if truthy success then
                  (let s2 = showNotification SessionDeleted Success s1;
                       s3 = s2\<lparr>sessions := AList.delete sessionId (sessions s2)\<rparr>
                   in case renderSessionsList e s3 of
                        Inl x \<Rightarrow> (Some x, s3)
                      | Inr s4 \<Rightarrow> (None, s4))
                else (Some (new_Error (member result ''error'')), s1)))"

definition deleteSession :: "env \<Rightarrow> bool \<Rightarrow> reply \<Rightarrow> jsval \<Rightarrow> sys \<Rightarrow> sys" where
  "deleteSession e confirmed r sessionId s =
     (if \<not> confirmed then s
      else try_catch (deleteSession_try e r sessionId s) (\<lambda>x. showNotification (DeleteFailed x) Error))"

definition clearAllSessions_try :: "env \<Rightarrow> reply \<Rightarrow> sys \<Rightarrow> outcome" where
  "clearAllSessions_try e r s =
     (let s1 = fetch PostClear s in
      case json_of r of
        Inl x \<Rightarrow> (Some x, s1)
      | Inr result \<Rightarrow>
         (case get_prop result ''success'' of
            Inl x \<Rightarrow> (Some x, s1)
          | Inr success \<Rightarrow>
              if truthy success
              then (None, renderEmptySessionsList e
                            ((showNotification AllSessionsDeleted Success s1)\<lparr>sessions := []\<rparr>))
              else (Some (new_Error (member result ''error'')), s1)))"

definition clearAllSessions :: "env \<Rightarrow> bool \<Rightarrow> reply \<Rightarrow> sys \<Rightarrow> sys" where
  "clearAllSessions e confirmed r s =
     (if \<not> confirmed then s
      else try_catch (clearAllSessions_try e r s) (\<lambda>x. showNotification (ClearFailed x) Error))"

section \<open>Startup recovery\<close>

definition checkSessionStatus_catch :: "exn \<Rightarrow> sys \<Rightarrow> sys" where
  "checkSessionStatus_catch x s =
     removeItem (lit ''currentSessionId'') (console_log (LogStatusError x) s)"

definition checkSessionStatus_try :: "env \<Rightarrow> reply \<Rightarrow> jsval \<Rightarrow> sys \<Rightarrow> outcome" where
  "checkSessionStatus_try e r sessionId s =
     (if \<not> convertible sessionId then (Some TypeError, s)
      else let s1 = fetch (GetStatus sessionId) s in
        case json_of r of
          Inl x \<Rightarrow> (Some x, s1)
        | Inr result \<Rightarrow>
           (case get_prop result ''success'' of
              Inl x \<Rightarrow> (Some x, s1)
            | Inr success \<Rightarrow>
                if truthy success then
                  (case get_prop (member result ''session'') ''status'' of
                     Inl x \<Rightarrow> (Some x, s1)
                   | Inr status \<Rightarrow>
                       if status = Str (lit ''running'')
                       then (None, showNotification RestoredRunning Info
                                     (updateSessionControls e (lit ''running'')
                                       (startProgressMonitoring (showProgress e True s1))))
                       else if status = Str (lit ''paused'')
                       then (None, showNotification RestoredPaused Info
                                     (updateSessionControls e (lit ''paused'') s1))
                       else if status = Str (lit ''completed'')
                       then (None, showNotification LastSessionCompleted Success
                                     (removeItem (lit ''currentSessionId'') s1))
                       else if status = Str (lit ''error'')
                       then (None, showNotification LastSessionHadError Warning s1)
                       else (None, s1))
                else (None, s1)))"

definition checkSessionStatus :: "env \<Rightarrow> reply \<Rightarrow> jsval \<Rightarrow> sys \<Rightarrow> sys" where
  "checkSessionStatus e r sessionId s =
     try_catch (checkSessionStatus_try e r sessionId s) checkSessionStatus_catch"

text \<open>
  \<open>restoreLastSession\<close> up to its call of \<open>restoreFormData\<close>, which only fills form
  inputs. An empty stored string is falsy.
\<close>

definition restoreLastSession :: "env \<Rightarrow> reply \<Rightarrow> sys \<Rightarrow> sys" where
  "restoreLastSession e r s =
     (case getItem (lit ''currentSessionId'') s of
        None \<Rightarrow> s
      | Some lastSessionId \<Rightarrow>
          if lastSessionId = [] then s
          else checkSessionStatus e r (Str lastSessionId) (s\<lparr>currentSessionId := Str lastSessionId\<rparr>))"

section \<open>The free functions\<close>

text \<open>
  The file also declares functions outside the class, with module-level variables
  \<open>currentSessionId\<close> and \<open>progressInterval\<close> of their own; they are prefixed
  \<open>global_\<close> here.
\<close>

definition global_updateProgressUI :: "env \<Rightarrow> jsval \<Rightarrow> jsval \<Rightarrow> jsval \<Rightarrow> sys \<Rightarrow> outcome" where
  "global_updateProgressUI e percentage step estimatedTime s =
     (let est = (if truthy estimatedTime then estimatedTime else Str []) in
      and_then
        (if hasProgressBar e then
           (if convertible percentage then (None, write_dom [ProgressBarWidth percentage] s)
            else (Some TypeError, s))
         else (None, s))
        (\<lambda>s. if hasProgressText e then
                (if convertible step \<and> convertible est
                 then (None, write_dom [ProgressTextContent step est] s)
                 else (Some TypeError, s))
              else (None, s)))"

definition global_startProgressMonitoring :: "jsval \<Rightarrow> sys \<Rightarrow> sys" where
  "global_startProgressMonitoring sessionId s =
     (case setInterval (GlobalTick sessionId) s of (h, s1) \<Rightarrow> s1\<lparr>global_progressInterval := Some h\<rparr>)"

definition global_progressTick_catch :: "exn \<Rightarrow> sys \<Rightarrow> sys" where
  "global_progressTick_catch x s =
     global_showNotification (MonitoringFailed x) Error
       (clearInterval (global_progressInterval s) (console_log (LogMonitorFailure x) s))"

text \<open>
  The \<open>try\<close> block of the interval callback of the free function
  \<open>startProgressMonitoring\<close>, for one run. Without the element \<open>#progress-section\<close> the
  last statement of the completed branch throws.
\<close>

definition global_progressTick_try :: "env \<Rightarrow> jsval \<Rightarrow> reply \<Rightarrow> sys \<Rightarrow> outcome" where
  "global_progressTick_try e sessionId r s =
     (if \<not> convertible sessionId then (Some TypeError, s)
      else let s1 = fetch (GetProgress sessionId) s in
        case json_of r of
          Inl x \<Rightarrow> (Some x, s1)
        | Inr data \<Rightarrow>
           (case get_prop data ''success'' of
              Inl x \<Rightarrow> (Some x, s1)
            | Inr success \<Rightarrow>
                if truthy success then
                  and_then
                    (global_updateProgressUI e (member data ''percentage'')
                       (member data ''current_step'') (member data ''estimated_time'') s1)
                    (\<lambda>s2. if truthy (member data ''completed'')
                          then (let s3 = global_showNotification AnalysisDone Success
                                           (clearInterval (global_progressInterval s2) s2)
                                in if hasProgressSection e
                                   then (None, write_dom [ProgressSectionDisplay False] s3)
                                   else (Some TypeError, s3))
                          else (None, s2))
                else (Some (new_Error
                             (if truthy (member data ''error'') then member data ''error''
                              else Str (lit ''Erro ao obter progresso''))), s1)))"

definition global_progressTick :: "env \<Rightarrow> jsval \<Rightarrow> reply \<Rightarrow> sys \<Rightarrow> sys" where
  "global_progressTick e sessionId r s =
     try_catch (global_progressTick_try e sessionId r s) global_progressTick_catch"

definition global_addAnalysisControls :: "env \<Rightarrow> sys \<Rightarrow> sys" where
  "global_addAnalysisControls e s =
     (if \<not> hasProgressSection e then s
      else if hasAnalysisControls e then s
      else write_dom [AnalysisControlsAdded] s)"

definition global_startAnalysis_catch :: "env \<Rightarrow> exn \<Rightarrow> sys \<Rightarrow> sys" where
  "global_startAnalysis_catch e x s =
     (let s1 = global_showNotification (GenericError x) Error (console_log (LogAnalysisError x) s)
      in if hasStartButton e then write_dom [StartButtonDisabled False] s1 else s1)"

text \<open>The \<open>try\<close> block of the free function \<open>startAnalysis\<close>, for the trimmed field values.\<close>

definition global_startAnalysis_try :: "env \<Rightarrow> jsstr \<Rightarrow> jsstr \<Rightarrow> reply \<Rightarrow> sys \<Rightarrow> outcome" where
  "global_startAnalysis_try e segmento produto r s =
     (let s2 = fetch (PostAnalyzeCompleta segmento produto)
                 (global_showNotification StartingAnalysis Info s)
      in case r of
        NetworkError \<Rightarrow> (Some NetworkFailure, s2)
      | Response k c b \<Rightarrow>
          if \<not> c then (Some InvalidServerResponse, console_log LogNotJson s2)
          else case b of
            None \<Rightarrow> (Some JsonSyntaxError, s2)
          | Some data \<Rightarrow>
              if \<not> k then
                (case get_prop data ''error'' of
                   Inl x \<Rightarrow> (Some x, s2)
                 | Inr err \<Rightarrow> (Some (if truthy err then new_Error err else HttpStatusError), s2))
              else
                (case get_prop data ''success'' of
                   Inl x \<Rightarrow> (Some x, s2)
                 | Inr success \<Rightarrow>
                     if truthy success then
                       (let s3 = global_showNotification AnalysisStartedOk Success s2;
                            sid = member data ''session_id''
                        in if truthy sid then
                             (None,
                              global_addAnalysisControls e
                                ((if hasProgressSection e
                                  then write_dom [ProgressSectionDisplay True, ProgressSectionScroll]
                                  else (\<lambda>x. x))
                                   (global_startProgressMonitoring sid
                                      (s3\<lparr>global_currentSessionId := sid\<rparr>))))
                           else (None, s3))
                     else (Some (new_Error
                                  (if truthy (member data ''error'') then member data ''error''
                                   else Str (lit ''Erro desconhecido na an'' @ [225] @ lit ''lise''))),
                           s2)))"

text \<open>
  \<open>document.getElementById('segmento')?.value?.trim()\<close> is \<open>undefined\<close> without
  the element, so \<open>!segmento\<close> holds without it and for a value that trims to nothing.
\<close>

definition global_startAnalysis :: "env \<Rightarrow> reply \<Rightarrow> sys \<Rightarrow> sys" where
  "global_startAnalysis e r s =
     (let segmento = (case segmentoById e of None \<Rightarrow> [] | Some v \<Rightarrow> trim v);
          produto = (case produtoById e of None \<Rightarrow> [] | Some v \<Rightarrow> trim v)
      in if segmento = [] \<or> produto = [] then global_showNotification FillRequiredFields Error s
      else
        (let s0 = console_log LogStartingAnalysis s;
             s1 = (if hasStartButton e then write_dom [StartButtonDisabled True] s0 else s0)
         in try_catch (global_startAnalysis_try e segmento produto r s1)
              (global_startAnalysis_catch e)))"

section \<open>The state after construction\<close>

text \<open>The fields as the constructor and the module set them, in a fresh browser page.\<close>

definition init_sys :: sys where
  "init_sys =
     \<lparr>currentSessionId = Null, progressInterval = None, sessions = [], isPaused = False,
      notifications = [], global_currentSessionId = Null, global_progressInterval = None,
      global_notifications = [], timers = [], nextTimer = 1, localStorage = [],
      requests = [], dom = [], console = []\<rparr>"

text \<open>
  A page that has the form and every element the handlers look up. The two number
  conversions are stand-ins: nothing stated about this page reads their results.
\<close>

definition example_page :: env where
  "example_page =
     \<lparr>hasForm = True,
      formEntries = [(lit ''segmento'', lit ''Moda''), (lit ''produto'', [])],
      segmentoByName = Some (lit ''Moda''),
      segmentoById = Some (lit ''Moda''),
      produtoById = Some [],
      hasProgressFill = True, hasProgressPercentage = True, hasProgressStatus = True,
      hasProgressContainer = True, hasSessionsList = True, hasButton = (\<lambda>b. True),
      hasProgressBar = True, hasProgressText = True, hasProgressSection = True,
      hasStartButton = True, hasAnalysisControls = False,
      numberToString = (\<lambda>n. []), stringToNumber = (\<lambda>s. NaN)\<rparr>"

section \<open>Vocabulary of the properties\<close>

text \<open>
  A reply that makes a request fail: the transport fails (\<open>fetch\<close> or the JSON parse
  throws), or the body does not report success.
\<close>

definition request_failed :: "reply \<Rightarrow> bool" where
  "request_failed r =
     (case json_of r of Inl x \<Rightarrow> True | Inr result \<Rightarrow> \<not> truthy (member result ''success''))"

text \<open>A successful poll reply with its completion flag set, and a reply that carries an error.\<close>

definition poll_completed :: "reply \<Rightarrow> bool" where
  "poll_completed r =
     (case json_of r of Inl x \<Rightarrow> False
      | Inr data \<Rightarrow> truthy (member data ''success'') \<and> truthy (member data ''completed''))"

definition carries_error :: "reply \<Rightarrow> bool" where
  "carries_error r =
     (case json_of r of Inl x \<Rightarrow> False
      | Inr data \<Rightarrow> \<not> truthy (member data ''success'') \<and> truthy (member data ''error''))"

text \<open>A reply whose error value can be converted to a string for the notification.\<close>

definition error_convertible :: "reply \<Rightarrow> bool" where
  "error_convertible r =
     (case json_of r of Inl x \<Rightarrow> False | Inr data \<Rightarrow> convertible (member data ''error''))"

text \<open>
  A reply whose percentage, step label and estimated time can all be converted for
  display.
\<close>

definition poll_displayable :: "reply \<Rightarrow> bool" where
  "poll_displayable r =
     (case json_of r of Inl x \<Rightarrow> False
      | Inr data \<Rightarrow> convertible (member data ''percentage'') \<and>
                    convertible (member data ''current_step'') \<and>
                    convertible (member data ''estimated_time''))"

text \<open>The six lifecycle actions, each run by its handler.\<close>

datatype lifecycle_action = Pause | Resume | Save | Continue jsval | Delete jsval | ClearAll

fun run_action :: "env \<Rightarrow> lifecycle_action \<Rightarrow> bool \<Rightarrow> reply \<Rightarrow> reply \<Rightarrow> sys \<Rightarrow> sys" where
  "run_action e Pause confirmed r l s = pauseSession e r s"
| "run_action e Resume confirmed r l s = resumeSession e r s"
| "run_action e Save confirmed r l s = saveSession e r l s"
| "run_action e (Continue sessionId) confirmed r l s = continueSession e r sessionId s"
| "run_action e (Delete sessionId) confirmed r l s = deleteSession e confirmed r sessionId s"
| "run_action e ClearAll confirmed r l s = clearAllSessions e confirmed r s"

text \<open>
  Whether the handler goes on to its request: pause, resume and save need a current
  session, delete and clear-all need the user's confirmation. (A session identifier that
  cannot be converted to a string makes the handler throw while it builds the URL, which
  it handles as it handles a failed request.)
\<close>

fun issues_request :: "lifecycle_action \<Rightarrow> bool \<Rightarrow> sys \<Rightarrow> bool" where
  "issues_request Pause confirmed s = truthy (currentSessionId s)"
| "issues_request Resume confirmed s = truthy (currentSessionId s)"
| "issues_request Save confirmed s = truthy (currentSessionId s)"
| "issues_request (Continue sessionId) confirmed s = True"
| "issues_request (Delete sessionId) confirmed s = confirmed"
| "issues_request ClearAll confirmed s = confirmed"

text \<open>A number within the closed range from 0 to 100.\<close>

fun in_range :: "jsnum \<Rightarrow> bool" where
  "in_range (Fin a) = (0 \<le> a \<and> a \<le> 100)"
| "in_range x = False"

text \<open>
  The values a list of document writes gives the progress bar of the class, its
  percentage text, and the progress bar of the free function.
\<close>

fun fill_widths :: "dom_write list \<Rightarrow> jsnum list" where
  "fill_widths [] = []"
| "fill_widths (ProgressFillWidth w # ws) = w # fill_widths ws"
| "fill_widths (x # ws) = fill_widths ws"

fun percentage_texts :: "dom_write list \<Rightarrow> jsnum list" where
  "percentage_texts [] = []"
| "percentage_texts (ProgressPercentageText w # ws) = w # percentage_texts ws"
| "percentage_texts (x # ws) = percentage_texts ws"

fun bar_widths :: "dom_write list \<Rightarrow> jsval list" where
  "bar_widths [] = []"
| "bar_widths (ProgressBarWidth w # ws) = w # bar_widths ws"
| "bar_widths (x # ws) = bar_widths ws"

section \<open>Concrete inputs\<close>

definition abc123 :: jsval where
  "abc123 = Str (lit ''abc123'')"

text \<open>\<open>{success: true, session_id: "abc123"}\<close>\<close>

definition started_reply :: reply where
  "started_reply =
     Response True True (Some (Object [(lit ''success'', Bool True), (lit ''session_id'', abc123)]))"

text \<open>\<open>{success: true, percentage: 100, completed: true}\<close>\<close>

definition completed_reply :: reply where
  "completed_reply =
     Response True True (Some (Object
       [(lit ''success'', Bool True), (lit ''percentage'', Number (Fin 100)),
        (lit ''completed'', Bool True)]))"

text \<open>\<open>{success: true, percentage: 100, completed: true, current_step: {toString: null}}\<close>\<close>

definition unprintable_step_reply :: reply where
  "unprintable_step_reply =
     Response True True (Some (Object
       [(lit ''success'', Bool True), (lit ''percentage'', Number (Fin 100)),
        (lit ''completed'', Bool True),
        (lit ''current_step'', Object [(lit ''toString'', Null)])]))"

text \<open>\<open>{success: false, error: "boom"}\<close>\<close>

definition refused_reply :: reply where
  "refused_reply =
     Response True True (Some (Object
       [(lit ''success'', Bool False), (lit ''error'', Str (lit ''boom''))]))"

text \<open>\<open>{success: false, error: {toString: null}}\<close>\<close>

definition unprintable_error_reply :: reply where
  "unprintable_error_reply =
     Response True True (Some (Object
       [(lit ''success'', Bool False), (lit ''error'', Object [(lit ''toString'', Null)])]))"

text \<open>\<open>{success: true}\<close>\<close>

definition ok_reply :: reply where
  "ok_reply = Response True True (Some (Object [(lit ''success'', Bool True)]))"

text \<open>
  The state once the class has started session \<open>abc123\<close> from a fresh page: the
  identifier is current and persisted, and one poll timer runs.
\<close>

definition polling_sys :: sys where
  "polling_sys =
     init_sys\<lparr>currentSessionId := abc123, progressInterval := Some 1,
       timers := [(1, ClassTick)], nextTimer := 2,
       localStorage := [(lit ''currentSessionId'', lit ''abc123'')]\<rparr>"

definition big_pdf :: jsfile where
  "big_pdf =
     \<lparr>file_name = lit ''a.pdf'', file_size = 10485761, file_type = lit ''application/pdf''\<rparr>"

definition exact_pdf :: jsfile where
  "exact_pdf =
     \<lparr>file_name = lit ''b.pdf'', file_size = 10485760, file_type = lit ''application/pdf''\<rparr>"

section \<open>Reading replies\<close>

lemma get_prop_truthy: "truthy (member v k) \<Longrightarrow> get_prop v k = Inr (member v k)"
  by (cases v) (simp_all add: member_def)

lemma get_prop_Inr: "get_prop v k = Inr x \<Longrightarrow> member v k = x"
  by (simp add: member_def)

lemma get_prop_Inl: "get_prop v k = Inl x \<Longrightarrow> x = TypeError \<and> member v k = Undefined"
  by (cases v) (simp_all add: member_def)

section \<open>Sequencing\<close>

lemma and_then_simps:
  "and_then (None, s) f = f s"
  "and_then (Some x, s) f = (Some x, s)"
  by (simp_all add: and_then_def)

lemma try_catch_simps:
  "try_catch (None, s) h = s"
  "try_catch (Some x, s) h = h x s"
  by (simp_all add: try_catch_def)

section \<open>What each helper leaves alone\<close>

lemmas effect_defs =
  showNotification_def fetch_def write_dom_def console_log_def setItem_def removeItem_def
  clearInterval_def setInterval_def

lemma showProgress_frame:
  "sessions (showProgress e b s) = sessions s"
  "currentSessionId (showProgress e b s) = currentSessionId s"
  "isPaused (showProgress e b s) = isPaused s"
  "progressInterval (showProgress e b s) = progressInterval s"
  "timers (showProgress e b s) = timers s"
  "localStorage (showProgress e b s) = localStorage s"
  "notifications (showProgress e b s) = notifications s"
  "requests (showProgress e b s) = requests s"
  by (simp_all add: showProgress_def write_dom_def)

text \<open>\<open>updateProgress\<close> only appends document writes, whether or not it throws.\<close>

lemma updateProgress_writes:
  "\<exists>ws. snd (updateProgress e p m t s) = write_dom ws s"
proof -
  have w0: "s = write_dom [] s" by (simp add: write_dom_def)
  have ww: "\<And>a b u. write_dom a (write_dom b u) = write_dom (b @ a) u"
    by (simp add: write_dom_def)
  show ?thesis
    unfolding updateProgress_def Let_def and_then_def
    by (auto simp: ww split: prod.splits if_splits intro: exI [of _ "[]"] w0)
qed

lemma updateProgress_frame:
  "sessions (snd (updateProgress e p m t s)) = sessions s"
  "currentSessionId (snd (updateProgress e p m t s)) = currentSessionId s"
  "isPaused (snd (updateProgress e p m t s)) = isPaused s"
  "progressInterval (snd (updateProgress e p m t s)) = progressInterval s"
  "timers (snd (updateProgress e p m t s)) = timers s"
  "localStorage (snd (updateProgress e p m t s)) = localStorage s"
  "notifications (snd (updateProgress e p m t s)) = notifications s"
  "requests (snd (updateProgress e p m t s)) = requests s"
  using updateProgress_writes [of e p m t s] by (auto simp: write_dom_def)

lemma updateProgress_returns:
  assumes "convertible p" "convertible m" "convertible t"
  shows "fst (updateProgress e p m t s) = None"
  using assms by (simp add: updateProgress_def Let_def and_then_def)

lemma updateSessionControls_frame:
  "progressInterval (updateSessionControls e st s) = progressInterval s"
  "timers (updateSessionControls e st s) = timers s"
  "localStorage (updateSessionControls e st s) = localStorage s"
  "notifications (updateSessionControls e st s) = notifications s"
  "requests (updateSessionControls e st s) = requests s"
  by (simp_all add: updateSessionControls_def write_dom_def)

lemma stopProgressMonitoring_fields:
  "progressInterval (stopProgressMonitoring s) = None"
  "timers (stopProgressMonitoring s) =
     (case progressInterval s of None \<Rightarrow> timers s
      | Some h \<Rightarrow> filter (\<lambda>t. fst t \<noteq> h) (timers s))"
  "localStorage (stopProgressMonitoring s) = localStorage s"
  "notifications (stopProgressMonitoring s) = notifications s"
  "requests (stopProgressMonitoring s) = requests s"
  by (simp_all add: stopProgressMonitoring_def clearInterval_def split: option.splits)

lemma renderSessionsList_frame:
  assumes "renderSessionsList e s = Inr s'"
  shows "notifications s' = notifications s \<and> localStorage s' = localStorage s \<and>
         timers s' = timers s \<and> progressInterval s' = progressInterval s \<and>
         requests s' = requests s \<and> sessions s' = sessions s"
  using assms
  by (auto simp: renderSessionsList_def renderEmptySessionsList_def write_dom_def
      split: if_splits sum.splits)

lemma loadSavedSessions_catch_frame:
  "notifications (loadSavedSessions_catch e x s) = notifications s"
  "localStorage (loadSavedSessions_catch e x s) = localStorage s"
  "timers (loadSavedSessions_catch e x s) = timers s"
  "progressInterval (loadSavedSessions_catch e x s) = progressInterval s"
  "requests (loadSavedSessions_catch e x s) = requests s"
  by (simp_all add: loadSavedSessions_catch_def renderEmptySessionsList_def write_dom_def
      console_log_def)

lemma loadSavedSessions_frame:
  "notifications (loadSavedSessions e l s) = notifications s \<and>
   localStorage (loadSavedSessions e l s) = localStorage s \<and>
   timers (loadSavedSessions e l s) = timers s \<and>
   progressInterval (loadSavedSessions e l s) = progressInterval s \<and>
   requests (loadSavedSessions e l s) = requests s @ [GetSessions]"
  by (auto simp: loadSavedSessions_def Let_def loadSavedSessions_catch_frame fetch_def
      renderEmptySessionsList_def write_dom_def console_log_def
      split: reply.splits option.splits sum.splits jsval.splits prod.splits
      dest!: renderSessionsList_frame)

section \<open>File upload: validation before the request\<close>

lemma validateFile_accept:
  "file_size f \<le> maxSize \<Longrightarrow> file_type f \<in> set allowedTypes \<Longrightarrow> validateFile f s = (True, s)"
  by (simp add: validateFile_def)

lemma validateFile_reject:
  "\<not> (file_size f \<le> maxSize \<and> file_type f \<in> set allowedTypes) \<Longrightarrow>
     \<exists>m. validateFile f s = (False, showNotification m Warning s)"
  by (auto simp: validateFile_def)

lemma uploadFile_requests: "requests (uploadFile r f s) = requests s @ [PostUpload f]"
  by (simp add: uploadFile_def uploadFile_try_def try_catch_simps showNotification_def fetch_def
      Let_def split: sum.splits)

text \<open>The uploads \<open>handleFiles\<close> requests are exactly the files that pass validation, in order.\<close>

lemma handleFiles_requests:
  "requests (handleFiles replies files s) =
     requests s @
     map PostUpload
       (filter (\<lambda>f. file_size f \<le> maxSize \<and> file_type f \<in> set allowedTypes) files)"
proof (induction files arbitrary: s)
  case Nil
  then show ?case by simp
next
  case (Cons f files)
  show ?case
  proof (cases "file_size f \<le> maxSize \<and> file_type f \<in> set allowedTypes")
    case True
    then show ?thesis
      by (simp add: validateFile_accept Cons.IH uploadFile_requests)
  next
    case False
    then obtain m where "validateFile f s = (False, showNotification m Warning s)"
      using validateFile_reject by blast
    then show ?thesis
      using False by (simp add: Cons.IH showNotification_def)
  qed
qed

text \<open>
  C8. A file larger than 10 MiB, or whose type is not one of the four allowed types, is
  rejected by \<open>validateFile\<close> with one warning notification and no request; and
  \<open>handleFiles\<close>, whatever list it is given and whatever the server replies, issues no
  upload request for that file.
\<close>

theorem validateFile_rejects_oversize_or_disallowed:
  assumes "file_size f > 10 * 1024 * 1024 \<or>
           file_type f \<notin> {lit ''application/pdf'', lit ''text/plain'', lit ''application/msword'',
             lit ''application/vnd.openxmlformats-officedocument.wordprocessingml.document''}"
  shows "fst (validateFile f s) = False \<and>
         (\<exists>m. notifications (snd (validateFile f s)) =
                notifications s @ [\<lparr>n_type = Warning, n_message = m\<rparr>]) \<and>
         requests (snd (validateFile f s)) = requests s \<and>
         count_list (requests (handleFiles replies files s)) (PostUpload f) =
           count_list (requests s) (PostUpload f)"
proof -
  have bad: "\<not> (file_size f \<le> maxSize \<and> file_type f \<in> set allowedTypes)"
    using assms by (auto simp: maxSize_def allowedTypes_def)
  have "count_list
          (map PostUpload
            (filter (\<lambda>f. file_size f \<le> maxSize \<and> file_type f \<in> set allowedTypes) files))
          (PostUpload f) = 0"
    using bad by (induction files) auto
  then show ?thesis
    using bad by (auto simp: validateFile_def showNotification_def handleFiles_requests)
qed

theorem validateFile_rejects_oversize_witness:
  "file_size big_pdf > 10 * 1024 * 1024 \<and>
   validateFile big_pdf init_sys = (False, showNotification FileTooLarge Warning init_sys) \<and>
   requests (handleFiles (\<lambda>f. ok_reply) [big_pdf, exact_pdf, big_pdf] init_sys) = [PostUpload exact_pdf]"
proof -
  have h: "file_size big_pdf > 10 * 1024 * 1024"
    by (simp add: big_pdf_def)
  have "count_list (requests (handleFiles (\<lambda>f. ok_reply) [big_pdf, exact_pdf, big_pdf] init_sys))
          (PostUpload big_pdf) = count_list (requests init_sys) (PostUpload big_pdf)"
    using validateFile_rejects_oversize_or_disallowed [of big_pdf init_sys, OF disjI1 [OF h]]
    by blast
  moreover have "requests (handleFiles (\<lambda>f. ok_reply) [big_pdf, exact_pdf, big_pdf] init_sys) =
      [PostUpload exact_pdf]"
    by (simp add: handleFiles_requests big_pdf_def exact_pdf_def maxSize_def allowedTypes_def
        init_sys_def del: handleFiles.simps)
  ultimately show ?thesis
    using h by (simp add: validateFile_def big_pdf_def maxSize_def)
qed

text \<open>
  C10. A file of exactly 10 * 1024 * 1024 bytes whose type is allowed passes
  \<open>validateFile\<close> (no notification, the state untouched), and \<open>handleFiles\<close> issues
  the upload request for it: only a size strictly above the ceiling is rejected.
\<close>

theorem validateFile_accepts_exact_ceiling:
  assumes "file_size f = 10 * 1024 * 1024"
      and "file_type f \<in> {lit ''application/pdf'', lit ''text/plain'', lit ''application/msword'',
             lit ''application/vnd.openxmlformats-officedocument.wordprocessingml.document''}"
  shows "validateFile f s = (True, s) \<and>
         requests (handleFiles replies [f] s) = requests s @ [PostUpload f]"
  using assms by (auto simp: validateFile_def maxSize_def allowedTypes_def uploadFile_requests)

theorem validateFile_accepts_exact_ceiling_witness:
  "file_size exact_pdf = 10 * 1024 * 1024 \<and>
   validateFile exact_pdf init_sys = (True, init_sys) \<and>
   requests (handleFiles (\<lambda>f. ok_reply) [exact_pdf] init_sys) = [PostUpload exact_pdf]"
proof -
  have h: "file_size exact_pdf = 10 * 1024 * 1024"
    by (simp add: exact_pdf_def)
  have t: "file_type exact_pdf \<in> {lit ''application/pdf'', lit ''text/plain'',
      lit ''application/msword'',
      lit ''application/vnd.openxmlformats-officedocument.wordprocessingml.document''}"
    by (simp add: exact_pdf_def)
  show ?thesis
    using h validateFile_accepts_exact_ceiling [OF h t, of init_sys "\<lambda>f. ok_reply"]
    by (simp add: init_sys_def del: handleFiles.simps)
qed

lemma and_then_updateProgress:
  assumes "convertible p" "convertible m" "convertible t"
  shows "and_then (updateProgress e p m t s) f = f (snd (updateProgress e p m t s))"
proof -
  have "updateProgress e p m t s = (None, snd (updateProgress e p m t s))"
    using updateProgress_returns [OF assms, of e s] by (simp add: prod_eq_iff)
  then show ?thesis by (metis and_then_simps(1))
qed

section \<open>Session lifecycle actions that fail\<close>

text \<open>
  C5. For each of the six lifecycle actions (pause, resume, save, continue, delete,
  clear-all) whose handler sends its request: if the request fails (the transport
  throws, or the body does not report success), the handler appends one error
  notification and leaves the session map, the current session identifier, the paused
  flag, the timer handle, the running timers and the persisted storage as they were.
\<close>

theorem failed_action_keeps_state:
  assumes "request_failed r" and "issues_request a confirmed s"
  shows "sessions (run_action e a confirmed r l s) = sessions s \<and>
         currentSessionId (run_action e a confirmed r l s) = currentSessionId s \<and>
         isPaused (run_action e a confirmed r l s) = isPaused s \<and>
         progressInterval (run_action e a confirmed r l s) = progressInterval s \<and>
         timers (run_action e a confirmed r l s) = timers s \<and>
         localStorage (run_action e a confirmed r l s) = localStorage s \<and>
         (\<exists>m. notifications (run_action e a confirmed r l s) =
                notifications s @ [\<lparr>n_type = Error, n_message = m\<rparr>])"
proof (cases a)
  case Pause
  then show ?thesis using assms
    by (auto simp: pauseSession_def pauseSession_try_def try_catch_simps request_failed_def
        member_def Let_def effect_defs split: sum.splits)
next
  case Resume
  then show ?thesis using assms
    by (auto simp: resumeSession_def resumeSession_try_def try_catch_simps request_failed_def
        member_def Let_def effect_defs split: sum.splits)
next
  case Save
  then show ?thesis using assms
    by (auto simp: saveSession_def saveSession_try_def try_catch_simps request_failed_def
        member_def Let_def effect_defs split: sum.splits)
next
  case (Continue sessionId)
  then show ?thesis using assms
    by (auto simp: continueSession_def continueSession_try_def and_then_updateProgress
        try_catch_simps continueSession_catch_def request_failed_def member_def Let_def
        showProgress_frame updateProgress_frame showNotification_def fetch_def
        split: sum.splits)
next
  case (Delete sessionId)
  then show ?thesis using assms
    by (auto simp: deleteSession_def deleteSession_try_def try_catch_simps request_failed_def
        member_def Let_def effect_defs split: sum.splits)
next
  case ClearAll
  then show ?thesis using assms
    by (auto simp: clearAllSessions_def clearAllSessions_try_def try_catch_simps
        request_failed_def member_def Let_def effect_defs split: sum.splits)
qed

theorem failed_action_keeps_state_witness:
  "request_failed refused_reply \<and> issues_request Pause False polling_sys \<and>
   isPaused (run_action example_page Pause False refused_reply NetworkError polling_sys) = False \<and>
   progressInterval (run_action example_page Pause False refused_reply NetworkError polling_sys) = Some 1 \<and>
   timers (run_action example_page Pause False refused_reply NetworkError polling_sys) = [(1, ClassTick)] \<and>
   notifications (run_action example_page Pause False refused_reply NetworkError polling_sys) =
     [\<lparr>n_type = Error, n_message = PauseFailed (ErrorOf (Str (lit ''boom'')))\<rparr>]"
proof -
  have h1: "request_failed refused_reply"
    by (simp add: request_failed_def refused_reply_def member_def lit_def)
  have h2: "issues_request Pause False polling_sys"
    by (simp add: polling_sys_def abc123_def lit_def)
  have n: "notifications (run_action example_page Pause False refused_reply NetworkError polling_sys) =
     [\<lparr>n_type = Error, n_message = PauseFailed (ErrorOf (Str (lit ''boom'')))\<rparr>]"
    by (simp add: pauseSession_def pauseSession_try_def try_catch_simps new_Error_def
        polling_sys_def abc123_def refused_reply_def member_def lit_def init_sys_def Let_def
        showNotification_def fetch_def)
  show ?thesis
    using h1 h2 n failed_action_keeps_state [OF h1 h2, of example_page NetworkError]
    by (simp add: polling_sys_def init_sys_def)
qed

section \<open>The poll tick\<close>

lemma poll_completedE:
  assumes "poll_completed r"
  obtains data where "json_of r = Inr data" "truthy (member data ''success'')"
    "truthy (member data ''completed'')"
  using assms by (auto simp: poll_completed_def split: sum.splits)

lemma carries_errorE:
  assumes "carries_error r"
  obtains data where "json_of r = Inr data" "\<not> truthy (member data ''success'')"
    "truthy (member data ''error'')"
  using assms by (auto simp: carries_error_def split: sum.splits)

lemma progressTick_unconvertible_id:
  assumes "\<not> convertible (currentSessionId s)"
  shows "progressTick e r l s = console_log (LogMonitoringError TypeError) s"
  using assms by (simp add: progressTick_def progressTick_try_def try_catch_simps)

lemma progressTick_throws:
  assumes "convertible (currentSessionId s)" "json_of r = Inl x"
  shows "progressTick e r l s =
           console_log (LogMonitoringError x) (fetch (GetProgress (currentSessionId s)) s)"
  using assms by (simp add: progressTick_def progressTick_try_def try_catch_simps Let_def)

lemma progressTick_completed:
  assumes "convertible (currentSessionId s)" "json_of r = Inr data"
    "truthy (member data ''success'')" "truthy (member data ''completed'')"
    "convertible (member data ''percentage'')" "convertible (member data ''current_step'')"
    "convertible (member data ''estimated_time'')"
  shows "progressTick e r l s =
           loadSavedSessions e l
             (removeItem (lit ''currentSessionId'')
               (updateSessionControls e (lit ''completed'')
                 (showProgress e False
                   (showNotification AnalysisCompleted Success
                     (stopProgressMonitoring
                       (snd (updateProgress e (member data ''percentage'')
                          (member data ''current_step'')
                          (member data ''estimated_time'')
                          (fetch (GetProgress (currentSessionId s)) s))))))))"
  using assms
  by (simp add: progressTick_def progressTick_try_def get_prop_truthy Let_def
      and_then_updateProgress try_catch_simps)

text \<open>
  A successful reply that is not a completion, or whose display throws, only writes to
  the document and the console.
\<close>

lemma progressTick_success_quiet:
  assumes "convertible (currentSessionId s)" "json_of r = Inr data"
    "truthy (member data ''success'')"
    "\<not> truthy (member data ''completed'') \<or>
     fst (updateProgress e (member data ''percentage'') (member data ''current_step'')
            (member data ''estimated_time'') (fetch (GetProgress (currentSessionId s)) s)) \<noteq> None"
  shows "progressInterval (progressTick e r l s) = progressInterval s \<and>
         timers (progressTick e r l s) = timers s \<and>
         notifications (progressTick e r l s) = notifications s \<and>
         localStorage (progressTick e r l s) = localStorage s \<and>
         requests (progressTick e r l s) = requests s @ [GetProgress (currentSessionId s)]"
proof -
  define u where "u = updateProgress e (member data ''percentage'') (member data ''current_step'')
            (member data ''estimated_time'') (fetch (GetProgress (currentSessionId s)) s)"
  have f: "progressInterval (snd u) = progressInterval s" "timers (snd u) = timers s"
    "notifications (snd u) = notifications s" "localStorage (snd u) = localStorage s"
    "requests (snd u) = requests s @ [GetProgress (currentSessionId s)]"
    by (simp_all add: u_def updateProgress_frame fetch_def)
  have t: "progressTick e r l s =
      try_catch (and_then u (\<lambda>s2. if truthy (member data ''completed'')
                          then (None,
                                loadSavedSessions e l
                                  (removeItem (lit ''currentSessionId'')
                                    (updateSessionControls e (lit ''completed'')
                                      (showProgress e False
                                        (showNotification AnalysisCompleted Success
                                          (stopProgressMonitoring s2))))))
                          else (None, s2)))
        (\<lambda>x. console_log (LogMonitoringError x))"
    using assms(1-3)
    by (simp add: progressTick_def progressTick_try_def get_prop_truthy Let_def u_def)
  obtain x s2 where p: "u = (x, s2)" by (cases u)
  show ?thesis
  proof (cases x)
    case None
    with assms(4) p have "\<not> truthy (member data ''completed'')" by (simp add: u_def)
    with None p f show ?thesis
      by (simp add: t and_then_simps try_catch_simps)
  next
    case (Some y)
    with p f show ?thesis
      by (simp add: t and_then_simps try_catch_simps console_log_def)
  qed
qed

lemma progressTick_error:
  assumes "convertible (currentSessionId s)" "json_of r = Inr data"
    "\<not> truthy (member data ''success'')" "truthy (member data ''error'')"
  shows "progressTick e r l s =
           (if convertible (member data ''error'')
            then showProgress e False
                   (showNotification (ProgressError (member data ''error'')) Error
                     (stopProgressMonitoring (fetch (GetProgress (currentSessionId s)) s)))
            else console_log (LogMonitoringError TypeError)
                   (stopProgressMonitoring (fetch (GetProgress (currentSessionId s)) s)))"
proof (cases "get_prop data ''success''")
  case (Inl x)
  then have "member data ''error'' = Undefined"
    by (cases data) (simp_all add: member_def)
  with assms(4) show ?thesis by simp
next
  case (Inr v)
  then have "member data ''success'' = v" by (rule get_prop_Inr)
  with assms Inr show ?thesis
    by (simp add: progressTick_def progressTick_try_def try_catch_simps Let_def)
qed

lemma progressTick_idle:
  assumes "convertible (currentSessionId s)" "json_of r = Inr data"
    "\<not> truthy (member data ''success'')" "\<not> truthy (member data ''error'')"
  shows "progressTick e r l s = fetch (GetProgress (currentSessionId s)) s \<or>
         progressTick e r l s =
           console_log (LogMonitoringError TypeError) (fetch (GetProgress (currentSessionId s)) s)"
proof (cases "get_prop data ''success''")
  case (Inl x)
  then have "x = TypeError" using get_prop_Inl by blast
  with assms Inl show ?thesis
    by (simp add: progressTick_def progressTick_try_def try_catch_simps Let_def)
next
  case (Inr v)
  then have "member data ''success'' = v" by (rule get_prop_Inr)
  with assms Inr show ?thesis
    by (simp add: progressTick_def progressTick_try_def try_catch_simps Let_def)
qed

lemma global_updateProgressUI_writes:
  "\<exists>ws. snd (global_updateProgressUI e p st t s) = write_dom ws s"
proof -
  have w0: "s = write_dom [] s" by (simp add: write_dom_def)
  have ww: "\<And>a b u. write_dom a (write_dom b u) = write_dom (b @ a) u"
    by (simp add: write_dom_def)
  show ?thesis
    unfolding global_updateProgressUI_def Let_def and_then_def
    by (auto simp: ww split: prod.splits if_splits intro: exI [of _ "[]"] w0)
qed

lemma global_updateProgressUI_returns:
  assumes "convertible p" "convertible st" "convertible t"
  shows "fst (global_updateProgressUI e p st t s) = None"
  using assms by (simp add: global_updateProgressUI_def Let_def and_then_def)

lemma global_progressTick_completed:
  assumes "convertible sessionId" "json_of r = Inr data"
    "truthy (member data ''success'')" "truthy (member data ''completed'')"
    "convertible (member data ''percentage'')" "convertible (member data ''current_step'')"
    "convertible (member data ''estimated_time'')"
  shows "\<exists>ws. global_progressTick e sessionId r s =
          (let s2 = write_dom ws (fetch (GetProgress sessionId) s);
               s3 = global_showNotification AnalysisDone Success
                      (clearInterval (global_progressInterval s2) s2)
           in if hasProgressSection e
              then write_dom [ProgressSectionDisplay False] s3
              else global_progressTick_catch TypeError s3)"
proof -
  define u where "u = global_updateProgressUI e (member data ''percentage'')
     (member data ''current_step'') (member data ''estimated_time'') (fetch (GetProgress sessionId) s)"
  obtain ws where w: "snd u = write_dom ws (fetch (GetProgress sessionId) s)"
    unfolding u_def using global_updateProgressUI_writes by blast
  have "fst u = None"
    unfolding u_def using assms(5-7) by (rule global_updateProgressUI_returns)
  with w have u: "u = (None, write_dom ws (fetch (GetProgress sessionId) s))"
    by (simp add: prod_eq_iff)
  have "global_progressTick e sessionId r s =
          (let s2 = write_dom ws (fetch (GetProgress sessionId) s);
               s3 = global_showNotification AnalysisDone Success
                      (clearInterval (global_progressInterval s2) s2)
           in if hasProgressSection e
              then write_dom [ProgressSectionDisplay False] s3
              else global_progressTick_catch TypeError s3)"
    using assms(1-4) u
    by (simp add: global_progressTick_def global_progressTick_try_def get_prop_truthy Let_def
        u_def [symmetric] and_then_simps try_catch_simps)
  then show ?thesis ..
qed

lemma global_progressTick_failed:
  assumes "request_failed r"
  shows "\<exists>x. global_progressTick e sessionId r s = global_progressTick_catch x s \<or>
             global_progressTick e sessionId r s =
               global_progressTick_catch x (fetch (GetProgress sessionId) s)"
proof (cases "convertible sessionId")
  case False
  then have "global_progressTick e sessionId r s = global_progressTick_catch TypeError s"
    by (simp add: global_progressTick_def global_progressTick_try_def try_catch_simps)
  then show ?thesis by blast
next
  case True
  note c = this
  show ?thesis
  proof (cases "json_of r")
    case (Inl x)
    with c have "global_progressTick e sessionId r s =
        global_progressTick_catch x (fetch (GetProgress sessionId) s)"
      by (simp add: global_progressTick_def global_progressTick_try_def try_catch_simps Let_def)
    then show ?thesis by blast
  next
    case (Inr data)
    with assms have f: "\<not> truthy (member data ''success'')"
      by (simp add: request_failed_def)
    show ?thesis
    proof (cases "get_prop data ''success''")
      case (Inl x)
      with c \<open>json_of r = Inr data\<close> have "global_progressTick e sessionId r s =
          global_progressTick_catch x (fetch (GetProgress sessionId) s)"
        by (simp add: global_progressTick_def global_progressTick_try_def try_catch_simps Let_def)
      then show ?thesis by blast
    next
      case (Inr v)
      then have "member data ''success'' = v" by (rule get_prop_Inr)
      with c f Inr \<open>json_of r = Inr data\<close> have "global_progressTick e sessionId r s =
          global_progressTick_catch
            (new_Error (if truthy (member data ''error'') then member data ''error''
                        else Str (lit ''Erro ao obter progresso'')))
            (fetch (GetProgress sessionId) s)"
        by (simp add: global_progressTick_def global_progressTick_try_def try_catch_simps Let_def)
      then show ?thesis by blast
    qed
  qed
qed

lemma global_progressTick_catch_fields:
  "timers (global_progressTick_catch x s) = timers (clearInterval (global_progressInterval s) s)"
  "global_notifications (global_progressTick_catch x s) =
     global_notifications s @ [\<lparr>n_type = Error, n_message = MonitoringFailed x\<rparr>]"
  "localStorage (global_progressTick_catch x s) = localStorage s"
  "requests (global_progressTick_catch x s) = requests s"
  by (simp_all add: global_progressTick_catch_def global_showNotification_def clearInterval_def
      console_log_def split: option.splits)

text \<open>
  C3. Take a poll reply that reports success with the completion flag set and whose
  percentage, step label and estimated time can be converted for display, and session
  identifiers that convert to a string for the request URL. Then the tick of the class
  (\<open>ModernAnalysisSystem.startProgressMonitoring\<close>) clears the timer handle and the
  timer it names, removes \<open>currentSessionId\<close> from storage, appends the success
  notification, and sends exactly two requests, the progress request and one session list
  request. The tick of the free function \<open>startProgressMonitoring\<close> clears its timer and
  appends its success notification first, but leaves storage alone and sends the progress
  request only.
\<close>

theorem completed_poll_class_and_free_function:
  assumes "poll_completed r" and "poll_displayable r"
    and "convertible (currentSessionId s)" and "convertible sessionId"
  shows "progressInterval (progressTick e r l s) = None \<and>
         timers (progressTick e r l s) =
           (case progressInterval s of None \<Rightarrow> timers s
            | Some h \<Rightarrow> filter (\<lambda>t. fst t \<noteq> h) (timers s)) \<and>
         localStorage (progressTick e r l s) =
           AList.delete (lit ''currentSessionId'') (localStorage s) \<and>
         map_of (localStorage (progressTick e r l s)) (lit ''currentSessionId'') = None \<and>
         notifications (progressTick e r l s) =
           notifications s @ [\<lparr>n_type = Success, n_message = AnalysisCompleted\<rparr>] \<and>
         requests (progressTick e r l s) =
           requests s @ [GetProgress (currentSessionId s), GetSessions] \<and>
         localStorage (global_progressTick e sessionId r s) = localStorage s \<and>
         requests (global_progressTick e sessionId r s) = requests s @ [GetProgress sessionId] \<and>
         timers (global_progressTick e sessionId r s) =
           timers (clearInterval (global_progressInterval s) s) \<and>
         (\<exists>rest. global_notifications (global_progressTick e sessionId r s) =
            global_notifications s @ \<lparr>n_type = Success, n_message = AnalysisDone\<rparr> # rest)"
proof -
  from assms(1) obtain data where d: "json_of r = Inr data" "truthy (member data ''success'')"
    "truthy (member data ''completed'')" by (rule poll_completedE)
  from assms(2) d(1) have v: "convertible (member data ''percentage'')"
    "convertible (member data ''current_step'')" "convertible (member data ''estimated_time'')"
    by (simp_all add: poll_displayable_def)
  note c = progressTick_completed [OF assms(3) d v]
  note f = loadSavedSessions_frame removeItem_def updateSessionControls_frame showProgress_frame
    showNotification_def stopProgressMonitoring_fields updateProgress_frame fetch_def
  have 1: "progressInterval (progressTick e r l s) = None"
    by (simp add: c f)
  have 2: "timers (progressTick e r l s) =
           (case progressInterval s of None \<Rightarrow> timers s
            | Some h \<Rightarrow> filter (\<lambda>t. fst t \<noteq> h) (timers s))"
    by (simp add: c f split: option.splits)
  have 3: "localStorage (progressTick e r l s) =
      AList.delete (lit ''currentSessionId'') (localStorage s)"
    by (simp add: c f)
  have 4: "map_of (localStorage (progressTick e r l s)) (lit ''currentSessionId'') = None"
    by (simp add: 3 delete_conv)
  have 5: "notifications (progressTick e r l s) =
           notifications s @ [\<lparr>n_type = Success, n_message = AnalysisCompleted\<rparr>]"
    by (simp add: c f)
  have 6: "requests (progressTick e r l s) =
      requests s @ [GetProgress (currentSessionId s), GetSessions]"
    by (simp add: c f)
  from global_progressTick_completed [OF assms(4) d v, of e s]
  obtain ws where g: "global_progressTick e sessionId r s =
          (let s2 = write_dom ws (fetch (GetProgress sessionId) s);
               s3 = global_showNotification AnalysisDone Success
                      (clearInterval (global_progressInterval s2) s2)
           in if hasProgressSection e
              then write_dom [ProgressSectionDisplay False] s3
              else global_progressTick_catch TypeError s3)" by blast
  note gf = Let_def global_showNotification_def clearInterval_def
    write_dom_def fetch_def global_progressTick_catch_def console_log_def
  have 7: "localStorage (global_progressTick e sessionId r s) = localStorage s"
    by (simp add: g gf split: option.splits)
  have 8: "requests (global_progressTick e sessionId r s) = requests s @ [GetProgress sessionId]"
    by (simp add: g gf split: option.splits)
  have 9: "timers (global_progressTick e sessionId r s) =
      timers (clearInterval (global_progressInterval s) s)"
    by (simp add: g gf split: option.splits)
  have 10: "\<exists>rest. global_notifications (global_progressTick e sessionId r s) =
            global_notifications s @ \<lparr>n_type = Success, n_message = AnalysisDone\<rparr> # rest"
    by (simp add: g gf split: option.splits)
  show ?thesis using 1 2 3 4 5 6 7 8 9 10 by blast
qed

theorem completed_poll_witness:
  "poll_completed completed_reply \<and> poll_displayable completed_reply \<and>
   convertible (currentSessionId polling_sys) \<and> convertible abc123 \<and>
   progressInterval (progressTick example_page completed_reply NetworkError polling_sys) = None \<and>
   timers (progressTick example_page completed_reply NetworkError polling_sys) = [] \<and>
   localStorage (progressTick example_page completed_reply NetworkError polling_sys) = [] \<and>
   requests (progressTick example_page completed_reply NetworkError polling_sys) =
     [GetProgress abc123, GetSessions] \<and>
   requests (global_progressTick example_page abc123 completed_reply polling_sys) =
     [GetProgress abc123]"
proof -
  have h1: "poll_completed completed_reply"
    by (simp add: poll_completed_def completed_reply_def member_def lit_def)
  have h2: "poll_displayable completed_reply"
    by (simp add: poll_displayable_def completed_reply_def member_def lit_def)
  have h3: "convertible (currentSessionId polling_sys)"
    by (simp add: polling_sys_def abc123_def)
  have h4: "convertible abc123"
    by (simp add: abc123_def)
  show ?thesis
    using h1 h2 h3 h4
      completed_poll_class_and_free_function [OF h1 h2 h3 h4, of example_page NetworkError]
    by (simp add: polling_sys_def init_sys_def)
qed

text \<open>
  Two replies with \<open>success: true\<close> and \<open>completed: true\<close>. After the first, with
  percentage 100, the tick of the free function, started on a fresh page for session
  \<open>abc123\<close>, has sent the progress request and no session list request. After the
  second, whose \<open>current_step\<close> is \<open>{toString: null}\<close>, the tick of the class, with one
  poll running for \<open>abc123\<close>, has thrown while displaying the step: the timer still runs,
  the identifier is still stored, no notification was added and no session list request
  was sent.
\<close>

theorem completed_poll_counterexample:
  "poll_completed completed_reply \<and>
   requests (global_progressTick example_page abc123 completed_reply
              (global_startProgressMonitoring abc123 init_sys)) = [GetProgress abc123] \<and>
   count_list (requests (global_progressTick example_page abc123 completed_reply
              (global_startProgressMonitoring abc123 init_sys))) GetSessions = 0 \<and>
   poll_completed unprintable_step_reply \<and>
   progressInterval (progressTick example_page unprintable_step_reply ok_reply polling_sys) = Some 1 \<and>
   timers (progressTick example_page unprintable_step_reply ok_reply polling_sys) = [(1, ClassTick)] \<and>
   localStorage (progressTick example_page unprintable_step_reply ok_reply polling_sys) =
     [(lit ''currentSessionId'', lit ''abc123'')] \<and>
   notifications (progressTick example_page unprintable_step_reply ok_reply polling_sys) = [] \<and>
   requests (progressTick example_page unprintable_step_reply ok_reply polling_sys) =
     [GetProgress abc123]"
proof -
  have a: "poll_completed completed_reply \<and>
     requests (global_progressTick example_page abc123 completed_reply
              (global_startProgressMonitoring abc123 init_sys)) = [GetProgress abc123]"
    by (simp add: poll_completed_def global_progressTick_def global_progressTick_try_def
        completed_reply_def member_def lit_def abc123_def
        global_startProgressMonitoring_def setInterval_def init_sys_def Let_def fetch_def
        global_updateProgressUI_def example_page_def write_dom_def global_showNotification_def
        clearInterval_def and_then_simps try_catch_simps)
  have b: "poll_completed unprintable_step_reply \<and>
     progressTick example_page unprintable_step_reply ok_reply polling_sys =
       console_log (LogMonitoringError TypeError)
         (write_dom [ProgressFillWidth (Fin 100), ProgressPercentageText (Fin 100)]
           (fetch (GetProgress abc123) polling_sys))"
    by (simp add: poll_completed_def progressTick_def progressTick_try_def
        unprintable_step_reply_def member_def lit_def abc123_def polling_sys_def init_sys_def
        Let_def fetch_def updateProgress_def example_page_def write_dom_def
        and_then_simps try_catch_simps console_log_def)
  show ?thesis
    using a b
    by (simp add: console_log_def write_dom_def fetch_def polling_sys_def init_sys_def)
qed

text \<open>What one tick of the class does to the handle, the timers and the notifications.\<close>

lemma progressTick_outcome:
  "(convertible (currentSessionId s) \<and> carries_error r \<and> error_convertible r \<and>
      progressInterval (progressTick e r l s) = None \<and>
      timers (progressTick e r l s) =
        (case progressInterval s of None \<Rightarrow> timers s
         | Some h \<Rightarrow> filter (\<lambda>t. fst t \<noteq> h) (timers s)) \<and>
      (\<exists>m. notifications (progressTick e r l s) =
             notifications s @ [\<lparr>n_type = Error, n_message = m\<rparr>])) \<or>
   (convertible (currentSessionId s) \<and> carries_error r \<and> \<not> error_convertible r \<and>
      progressInterval (progressTick e r l s) = None \<and>
      timers (progressTick e r l s) =
        (case progressInterval s of None \<Rightarrow> timers s
         | Some h \<Rightarrow> filter (\<lambda>t. fst t \<noteq> h) (timers s)) \<and>
      notifications (progressTick e r l s) = notifications s) \<or>
   (convertible (currentSessionId s) \<and> \<not> carries_error r \<and> poll_completed r \<and>
      (notifications (progressTick e r l s) =
         notifications s @ [\<lparr>n_type = Success, n_message = AnalysisCompleted\<rparr>] \<or>
       notifications (progressTick e r l s) = notifications s)) \<or>
   ((\<not> convertible (currentSessionId s) \<or> (\<not> carries_error r \<and> \<not> poll_completed r)) \<and>
      progressInterval (progressTick e r l s) = progressInterval s \<and>
      timers (progressTick e r l s) = timers s \<and>
      notifications (progressTick e r l s) = notifications s)"
proof (cases "convertible (currentSessionId s)")
  case False
  then show ?thesis
    by (simp add: progressTick_unconvertible_id console_log_def)
next
  case True
  note c = this
  show ?thesis
  proof (cases "json_of r")
    case (Inl x)
    with c show ?thesis
      by (simp add: progressTick_throws carries_error_def poll_completed_def console_log_def
          fetch_def)
  next
    case (Inr data)
    show ?thesis
    proof (cases "truthy (member data ''success'')")
      case True
      note ok = this
      show ?thesis
      proof (cases "truthy (member data ''completed'')")
        case False
        with progressTick_success_quiet [OF c Inr ok, of e l] Inr ok show ?thesis
          by (simp add: carries_error_def poll_completed_def)
      next
        case True
        note fin = this
        show ?thesis
        proof (cases "fst (updateProgress e (member data ''percentage'')
            (member data ''current_step'') (member data ''estimated_time'')
            (fetch (GetProgress (currentSessionId s)) s)) = None")
          case False
          with progressTick_success_quiet [OF c Inr ok, of e l] Inr ok fin c show ?thesis
            by (simp add: carries_error_def poll_completed_def)
        next
          case True
          define u where "u = updateProgress e (member data ''percentage'')
            (member data ''current_step'') (member data ''estimated_time'')
            (fetch (GetProgress (currentSessionId s)) s)"
          from True have u: "u = (None, snd u)" by (simp add: u_def prod_eq_iff)
          have "progressTick e r l s =
             loadSavedSessions e l
               (removeItem (lit ''currentSessionId'')
                 (updateSessionControls e (lit ''completed'')
                   (showProgress e False
                     (showNotification AnalysisCompleted Success
                       (stopProgressMonitoring (snd u))))))"
            using c Inr ok fin
            by (simp add: progressTick_def progressTick_try_def get_prop_truthy Let_def
                u_def [symmetric]) (subst u, simp add: and_then_simps try_catch_simps)
          then have "notifications (progressTick e r l s) =
              notifications s @ [\<lparr>n_type = Success, n_message = AnalysisCompleted\<rparr>]"
            by (simp add: loadSavedSessions_frame removeItem_def updateSessionControls_frame
                showProgress_frame showNotification_def stopProgressMonitoring_fields
                u_def updateProgress_frame fetch_def)
          with c Inr ok fin show ?thesis
            by (simp add: carries_error_def poll_completed_def)
        qed
      qed
    next
      case False
      note ko = this
      show ?thesis
      proof (cases "truthy (member data ''error'')")
        case True
        with c Inr ko show ?thesis
          by (simp add: progressTick_error carries_error_def error_convertible_def
              showProgress_frame showNotification_def stopProgressMonitoring_fields fetch_def
              console_log_def split: option.splits)
      next
        case False
        from progressTick_idle [OF c Inr ko False, of e l] Inr ko False show ?thesis
          by (auto simp: carries_error_def poll_completed_def console_log_def fetch_def)
      qed
    qed
  qed
qed

text \<open>
  C4. On a tick of the class (\<open>ModernAnalysisSystem.startProgressMonitoring\<close>) whose
  session identifier converts to a string for the request URL: when the request throws,
  the tick only logs the error, so the handle, the timers and the notifications stay as
  they were. When the reply does not report success and carries an error, the tick
  clears the handle and removes the timer the handle named, which need not be the timer
  that ticked, and then appends an error notification if the error value can be converted
  to a string; if it cannot, the conversion's \<open>TypeError\<close> is only logged and no
  notification is added. An error notification is appended in no other case, and a reply
  that neither carries an error nor is a completion, like a tick whose identifier does not
  convert, leaves handle, timers and notifications alone. On a tick of the free function
  \<open>startProgressMonitoring\<close>, every failed request (the transport throws, or the body
  does not report success) clears the timer in its handle and appends an error
  notification.
\<close>

theorem poll_tick_failure_handling:
  "(convertible (currentSessionId s) \<and> json_of r = Inl x \<longrightarrow>
      progressTick e r l s =
        console_log (LogMonitoringError x) (fetch (GetProgress (currentSessionId s)) s)) \<and>
   ((\<exists>m. notifications (progressTick e r l s) =
          notifications s @ [\<lparr>n_type = Error, n_message = m\<rparr>]) =
      (convertible (currentSessionId s) \<and> carries_error r \<and> error_convertible r)) \<and>
   (convertible (currentSessionId s) \<and> carries_error r \<longrightarrow>
      progressInterval (progressTick e r l s) = None \<and>
      timers (progressTick e r l s) =
        (case progressInterval s of None \<Rightarrow> timers s
         | Some h \<Rightarrow> filter (\<lambda>t. fst t \<noteq> h) (timers s))) \<and>
   (convertible (currentSessionId s) \<and> carries_error r \<and> \<not> error_convertible r \<longrightarrow>
      notifications (progressTick e r l s) = notifications s) \<and>
   (\<not> convertible (currentSessionId s) \<or> (\<not> carries_error r \<and> \<not> poll_completed r) \<longrightarrow>
      progressInterval (progressTick e r l s) = progressInterval s \<and>
      timers (progressTick e r l s) = timers s \<and>
      notifications (progressTick e r l s) = notifications s) \<and>
   (request_failed r \<longrightarrow>
      timers (global_progressTick e sessionId r s) =
        timers (clearInterval (global_progressInterval s) s) \<and>
      (\<exists>m. global_notifications (global_progressTick e sessionId r s) =
             global_notifications s @ [\<lparr>n_type = Error, n_message = m\<rparr>]))"
proof -
  have a: "convertible (currentSessionId s) \<and> json_of r = Inl x \<longrightarrow>
      progressTick e r l s =
        console_log (LogMonitoringError x) (fetch (GetProgress (currentSessionId s)) s)"
    by (simp add: progressTick_throws)
  have b: "(\<exists>m. notifications (progressTick e r l s) =
          notifications s @ [\<lparr>n_type = Error, n_message = m\<rparr>]) =
      (convertible (currentSessionId s) \<and> carries_error r \<and> error_convertible r)"
    using progressTick_outcome [of s r e l] by auto
  have c: "convertible (currentSessionId s) \<and> carries_error r \<longrightarrow>
      progressInterval (progressTick e r l s) = None \<and>
      timers (progressTick e r l s) =
        (case progressInterval s of None \<Rightarrow> timers s
         | Some h \<Rightarrow> filter (\<lambda>t. fst t \<noteq> h) (timers s))"
    using progressTick_outcome [of s r e l] by blast
  have c': "convertible (currentSessionId s) \<and> carries_error r \<and> \<not> error_convertible r \<longrightarrow>
      notifications (progressTick e r l s) = notifications s"
    using progressTick_outcome [of s r e l] by blast
  have d: "\<not> convertible (currentSessionId s) \<or> (\<not> carries_error r \<and> \<not> poll_completed r) \<longrightarrow>
      progressInterval (progressTick e r l s) = progressInterval s \<and>
      timers (progressTick e r l s) = timers s \<and>
      notifications (progressTick e r l s) = notifications s"
    using progressTick_outcome [of s r e l] by blast
  have g: "request_failed r \<longrightarrow>
      timers (global_progressTick e sessionId r s) =
        timers (clearInterval (global_progressInterval s) s) \<and>
      (\<exists>m. global_notifications (global_progressTick e sessionId r s) =
             global_notifications s @ [\<lparr>n_type = Error, n_message = m\<rparr>])"
  proof
    assume "request_failed r"
    then obtain y where "global_progressTick e sessionId r s = global_progressTick_catch y s \<or>
        global_progressTick e sessionId r s =
          global_progressTick_catch y (fetch (GetProgress sessionId) s)"
      using global_progressTick_failed by blast
    then show "timers (global_progressTick e sessionId r s) =
        timers (clearInterval (global_progressInterval s) s) \<and>
      (\<exists>m. global_notifications (global_progressTick e sessionId r s) =
             global_notifications s @ [\<lparr>n_type = Error, n_message = m\<rparr>])"
      by (auto simp: global_progressTick_catch_fields fetch_def clearInterval_def
          split: option.splits)
  qed
  show ?thesis using a b c c' d g by blast
qed

theorem poll_tick_failure_handling_witness:
  "convertible (currentSessionId polling_sys) \<and>
   json_of NetworkError = Inl NetworkFailure \<and>
   progressInterval (progressTick example_page NetworkError NetworkError polling_sys) = Some 1 \<and>
   timers (progressTick example_page NetworkError NetworkError polling_sys) = [(1, ClassTick)] \<and>
   notifications (progressTick example_page NetworkError NetworkError polling_sys) = [] \<and>
   carries_error refused_reply \<and> error_convertible refused_reply \<and>
   progressInterval (progressTick example_page refused_reply NetworkError polling_sys) = None \<and>
   timers (progressTick example_page refused_reply NetworkError polling_sys) = [] \<and>
   carries_error unprintable_error_reply \<and> \<not> error_convertible unprintable_error_reply \<and>
   timers (progressTick example_page unprintable_error_reply NetworkError polling_sys) = [] \<and>
   notifications (progressTick example_page unprintable_error_reply NetworkError polling_sys) = [] \<and>
   request_failed refused_reply \<and>
   timers (global_progressTick example_page abc123 refused_reply
            (global_startProgressMonitoring abc123 init_sys)) = []"
proof -
  have h0: "convertible (currentSessionId polling_sys)"
    by (simp add: polling_sys_def abc123_def)
  have h1: "json_of NetworkError = Inl NetworkFailure" by simp
  have h2: "carries_error refused_reply \<and> error_convertible refused_reply"
    by (simp add: carries_error_def error_convertible_def refused_reply_def member_def lit_def)
  have h3: "\<not> carries_error NetworkError \<and> \<not> poll_completed NetworkError"
    by (simp add: carries_error_def poll_completed_def)
  have h4: "request_failed refused_reply"
    by (simp add: request_failed_def refused_reply_def member_def lit_def)
  have h5: "carries_error unprintable_error_reply \<and> \<not> error_convertible unprintable_error_reply"
    by (simp add: carries_error_def error_convertible_def unprintable_error_reply_def member_def
        lit_def)
  have g: "timers (global_progressTick example_page abc123 refused_reply
            (global_startProgressMonitoring abc123 init_sys)) = []"
    using h4
      poll_tick_failure_handling [of "global_startProgressMonitoring abc123 init_sys"
        refused_reply NetworkFailure example_page NetworkError abc123]
    by (simp add: global_startProgressMonitoring_def setInterval_def init_sys_def
        clearInterval_def)
  show ?thesis
    using h0 h1 h2 h3 h4 h5 g
      poll_tick_failure_handling [of polling_sys NetworkError NetworkFailure example_page NetworkError]
      poll_tick_failure_handling [of polling_sys refused_reply NetworkFailure example_page NetworkError]
      poll_tick_failure_handling [of polling_sys unprintable_error_reply NetworkFailure example_page NetworkError]
    by (simp add: polling_sys_def init_sys_def console_log_def fetch_def)
qed

text \<open>
  Three runs against the claim. The free function's poller, started on a fresh page for
  session \<open>abc123\<close>: one tick whose request throws leaves no timer running and shows an
  error notification. The class with two timers running (a second start while a poll
  ran): a tick replied with \<open>{success: false, error: "boom"}\<close> removes timer 2, which
  the handle names, and timer 1 keeps running. The class with one poll running: a tick
  replied with \<open>{success: false, error: {toString: null}}\<close> stops the timer and adds no
  notification.
\<close>

theorem poll_tick_counterexample:
  "json_of NetworkError = Inl NetworkFailure \<and>
   timers (global_startProgressMonitoring abc123 init_sys) = [(1, GlobalTick abc123)] \<and>
   timers (global_progressTick example_page abc123 NetworkError
            (global_startProgressMonitoring abc123 init_sys)) = [] \<and>
   global_notifications (global_progressTick example_page abc123 NetworkError
            (global_startProgressMonitoring abc123 init_sys)) =
     [\<lparr>n_type = Error, n_message = MonitoringFailed NetworkFailure\<rparr>] \<and>
   timers (startProgressMonitoring polling_sys) = [(1, ClassTick), (2, ClassTick)] \<and>
   carries_error refused_reply \<and>
   timers (progressTick example_page refused_reply NetworkError
            (startProgressMonitoring polling_sys)) = [(1, ClassTick)] \<and>
   carries_error unprintable_error_reply \<and>
   timers (progressTick example_page unprintable_error_reply NetworkError polling_sys) = [] \<and>
   progressInterval (progressTick example_page unprintable_error_reply NetworkError polling_sys) = None \<and>
   notifications (progressTick example_page unprintable_error_reply NetworkError polling_sys) = []"
proof -
  have a: "timers (global_startProgressMonitoring abc123 init_sys) = [(1, GlobalTick abc123)] \<and>
   timers (global_progressTick example_page abc123 NetworkError
            (global_startProgressMonitoring abc123 init_sys)) = [] \<and>
   global_notifications (global_progressTick example_page abc123 NetworkError
            (global_startProgressMonitoring abc123 init_sys)) =
     [\<lparr>n_type = Error, n_message = MonitoringFailed NetworkFailure\<rparr>]"
    by (simp add: global_progressTick_def global_progressTick_try_def try_catch_simps
        global_progressTick_catch_def abc123_def
        global_startProgressMonitoring_def setInterval_def init_sys_def Let_def fetch_def
        global_showNotification_def clearInterval_def console_log_def)
  have b: "timers (startProgressMonitoring polling_sys) = [(1, ClassTick), (2, ClassTick)] \<and>
   carries_error refused_reply \<and>
   timers (progressTick example_page refused_reply NetworkError
            (startProgressMonitoring polling_sys)) = [(1, ClassTick)]"
    by (simp add: startProgressMonitoring_def setInterval_def polling_sys_def init_sys_def
        abc123_def lit_def carries_error_def refused_reply_def member_def progressTick_def
        progressTick_try_def try_catch_simps Let_def fetch_def stopProgressMonitoring_def
        clearInterval_def showNotification_def showProgress_def write_dom_def example_page_def)
  have c: "carries_error unprintable_error_reply \<and>
   timers (progressTick example_page unprintable_error_reply NetworkError polling_sys) = [] \<and>
   progressInterval (progressTick example_page unprintable_error_reply NetworkError polling_sys) = None \<and>
   notifications (progressTick example_page unprintable_error_reply NetworkError polling_sys) = []"
    by (simp add: polling_sys_def init_sys_def
        abc123_def lit_def carries_error_def unprintable_error_reply_def member_def progressTick_def
        progressTick_try_def try_catch_simps Let_def fetch_def stopProgressMonitoring_def
        clearInterval_def console_log_def)
  show ?thesis using a b c by simp
qed

section \<open>Displayed progress values\<close>

lemma clamp_cases:
  "Math_max (Fin 0) (Math_min (Fin 100) n) =
     (case n of NaN \<Rightarrow> NaN | NegInf \<Rightarrow> Fin 0
      | Fin a \<Rightarrow> Fin (if a < 0 then 0 else if 100 < a then 100 else a)
      | PosInf \<Rightarrow> Fin 100)"
  by (cases n) auto

lemma clamp_in_range: "n \<noteq> NaN \<Longrightarrow> in_range (Math_max (Fin 0) (Math_min (Fin 100) n))"
  by (cases n) simp_all

text \<open>
  C6. For every percentage that converts to a number, the progress bar width that
  \<open>updateProgress\<close> of the class writes (it writes one when the bar exists) is the
  percentage clamped to the range from 0 to 100: 0 for a number below 0, 100 for a number
  above 100, the number itself within the range, and NaN for a percentage that is not a
  number; so every number is displayed within the range. The percentage text it writes is
  the rounded percentage, not a clamped one, and the free function \<open>updateProgressUI\<close>
  writes the percentage as the bar width unchanged.
\<close>

theorem updateProgress_clamps_fill_width:
  assumes "convertible percentage"
  shows "fill_widths (drop (length (dom s)) (dom (snd (updateProgress e percentage m t s)))) =
           (if hasProgressFill e
            then [Math_max (Fin 0) (Math_min (Fin 100) (ToNumber e percentage))] else []) \<and>
         Math_max (Fin 0) (Math_min (Fin 100) (ToNumber e percentage)) =
           (case ToNumber e percentage of NaN \<Rightarrow> NaN | NegInf \<Rightarrow> Fin 0
            | Fin a \<Rightarrow> Fin (if a < 0 then 0 else if 100 < a then 100 else a)
            | PosInf \<Rightarrow> Fin 100) \<and>
         (ToNumber e percentage \<noteq> NaN \<longrightarrow>
            in_range (Math_max (Fin 0) (Math_min (Fin 100) (ToNumber e percentage)))) \<and>
         percentage_texts (drop (length (dom s)) (dom (snd (updateProgress e percentage m t s)))) =
           (if hasProgressPercentage e then [Math_round (ToNumber e percentage)] else []) \<and>
         bar_widths (drop (length (dom s))
             (dom (snd (global_updateProgressUI e percentage m t s)))) =
           (if hasProgressBar e then [percentage] else [])"
proof -
  have 1: "fill_widths (drop (length (dom s)) (dom (snd (updateProgress e percentage m t s)))) =
           (if hasProgressFill e
            then [Math_max (Fin 0) (Math_min (Fin 100) (ToNumber e percentage))] else [])"
    using assms by (simp add: updateProgress_def and_then_def Let_def write_dom_def)
  have 2: "percentage_texts (drop (length (dom s)) (dom (snd (updateProgress e percentage m t s)))) =
           (if hasProgressPercentage e then [Math_round (ToNumber e percentage)] else [])"
    using assms by (simp add: updateProgress_def and_then_def Let_def write_dom_def)
  have 3: "bar_widths (drop (length (dom s))
             (dom (snd (global_updateProgressUI e percentage m t s)))) =
           (if hasProgressBar e then [percentage] else [])"
    using assms by (simp add: global_updateProgressUI_def and_then_def Let_def write_dom_def)
  show ?thesis
    using 1 2 3 clamp_cases [of "ToNumber e percentage"] clamp_in_range [of "ToNumber e percentage"]
    by blast
qed

theorem updateProgress_clamps_fill_width_witness:
  "convertible (Number (Fin 150)) \<and> convertible (Number (Fin (- 5))) \<and>
   hasProgressFill example_page \<and> hasProgressPercentage example_page \<and>
   hasProgressBar example_page \<and>
   ToNumber example_page (Number (Fin 150)) \<noteq> NaN \<and>
   fill_widths (dom (snd (updateProgress example_page (Number (Fin 150)) Undefined Undefined
     init_sys))) = [Fin 100] \<and>
   fill_widths (dom (snd (updateProgress example_page (Number (Fin (- 5))) Undefined Undefined
     init_sys))) = [Fin 0] \<and>
   in_range (Fin 100) \<and> in_range (Fin 0) \<and>
   bar_widths (dom (snd (global_updateProgressUI example_page (Number (Fin 150)) Undefined
     Undefined init_sys))) = [Number (Fin 150)]"
proof -
  have h1: "convertible (Number (Fin 150))" by simp
  have h2: "convertible (Number (Fin (- 5)))" by simp
  show ?thesis
    using h1 h2
      updateProgress_clamps_fill_width [OF h1, of init_sys example_page Undefined Undefined]
      updateProgress_clamps_fill_width [OF h2, of init_sys example_page Undefined Undefined]
    by (simp add: example_page_def init_sys_def)
qed

text \<open>
  With every element present, \<open>updateProgress(150, ...)\<close> on a fresh page writes the bar
  width 100, the percentage text 150 and the title 150.
\<close>

theorem updateProgress_text_not_clamped_counterexample:
  "dom (snd (updateProgress example_page (Number (Fin 150)) Undefined Undefined init_sys)) =
     [ProgressFillWidth (Fin 100), ProgressPercentageText (Fin 150), DocumentTitle (Fin 150)] \<and>
   \<not> in_range (Fin 150)"
  by (simp add: updateProgress_def and_then_simps example_page_def init_sys_def write_dom_def
      Let_def)

section \<open>Actions offered in the session list\<close>

lemma getSessionActions_continue:
  assumes "getSessionActions session sessionId = Inr actions"
  shows "(\<exists>x. ContinueButton x \<in> set actions) =
           (member session ''status'' \<in> {Str (lit ''paused''), Str (lit ''error''), Str (lit ''saved'')})"
    and "(ContinueButton sessionId \<in> set actions) =
           (member session ''status'' \<in> {Str (lit ''paused''), Str (lit ''error''), Str (lit ''saved'')})"
  using assms
  by (auto simp: getSessionActions_def member_def split: sum.splits if_splits)

text \<open>
  C7. The actions \<open>getSessionActions\<close> returns for a session contain a continue button
  exactly when the session's status is \<open>paused\<close>, \<open>error\<close> or \<open>saved\<close>; and in the
  rendered session list, which has one entry for each session in order, the entry of a
  session holds a continue button exactly under the same condition.
\<close>

theorem continue_offered_iff_status:
  "(getSessionActions session sessionId = Inr actions \<longrightarrow>
      (\<exists>x. ContinueButton x \<in> set actions) =
        (member session ''status'' \<in> {Str (lit ''paused''), Str (lit ''error''), Str (lit ''saved'')})
      \<and> (ContinueButton sessionId \<in> set actions) =
        (member session ''status'' \<in> {Str (lit ''paused''), Str (lit ''error''), Str (lit ''saved'')})) \<and>
   (render_items ss = Inr items \<longrightarrow>
      map item_id items = map fst ss \<and>
      map (\<lambda>it. \<exists>x. ContinueButton x \<in> set (item_actions it)) items =
        map (\<lambda>p. member (snd p) ''status'' \<in>
               {Str (lit ''paused''), Str (lit ''error''), Str (lit ''saved'')}) ss)"
proof -
  have r: "render_items ss = Inr items \<Longrightarrow>
      map item_id items = map fst ss \<and>
      map (\<lambda>it. \<exists>x. ContinueButton x \<in> set (item_actions it)) items =
        map (\<lambda>p. member (snd p) ''status'' \<in>
               {Str (lit ''paused''), Str (lit ''error''), Str (lit ''saved'')}) ss"
  proof (induction ss arbitrary: items)
    case Nil
    then show ?case by simp
  next
    case (Cons p ss)
    obtain k v where p: "p = (k, v)" by (cases p)
    from Cons.prems p obtain st acts rest where
      a: "get_prop v ''status'' = Inr st" "getSessionActions v k = Inr acts"
         "render_items ss = Inr rest"
         "items = \<lparr>item_id = k, item_active = (st = Str (lit ''running'')), item_actions = acts\<rparr> # rest"
      by (auto split: sum.splits)
    from Cons.IH [OF a(3)] getSessionActions_continue(1) [OF a(2)] a(4) p
    show ?case by simp
  qed
  show ?thesis
    using r getSessionActions_continue [of session sessionId actions] by blast
qed


theorem continue_offered_iff_status_witness:
  "getSessionActions (Object [(lit ''status'', Str (lit ''paused''))]) abc123 =
     Inr [ContinueButton abc123, DeleteButton abc123] \<and>
   member (Object [(lit ''status'', Str (lit ''paused''))]) ''status''
     \<in> {Str (lit ''paused''), Str (lit ''error''), Str (lit ''saved'')} \<and>
   render_items [(abc123, Object [(lit ''status'', Str (lit ''running''))])] =
     Inr [\<lparr>item_id = abc123, item_active = True, item_actions = [DeleteButton abc123]\<rparr>] \<and>
   member (Object [(lit ''status'', Str (lit ''running''))]) ''status''
     \<notin> {Str (lit ''paused''), Str (lit ''error''), Str (lit ''saved'')}"
proof -
  have a: "getSessionActions (Object [(lit ''status'', Str (lit ''paused''))]) abc123 =
     Inr [ContinueButton abc123, DeleteButton abc123]"
    by (simp add: getSessionActions_def lit_def)
  have b: "render_items [(abc123, Object [(lit ''status'', Str (lit ''running''))])] =
     Inr [\<lparr>item_id = abc123, item_active = True, item_actions = [DeleteButton abc123]\<rparr>]"
    by (simp add: getSessionActions_def lit_def)
  show ?thesis
    using a b
      continue_offered_iff_status [of "Object [(lit ''status'', Str (lit ''paused''))]" abc123
        "[ContinueButton abc123, DeleteButton abc123]"
        "[(abc123, Object [(lit ''status'', Str (lit ''running''))])]"
        "[\<lparr>item_id = abc123, item_active = True, item_actions = [DeleteButton abc123]\<rparr>]"]
    by simp
qed

section \<open>Startup recovery when the status request fails\<close>

text \<open>
  C9. When the status request of \<open>checkSessionStatus\<close> fails at the transport level
  (\<open>fetch\<close> or the JSON parse throws), \<open>currentSessionId\<close> is removed from storage,
  with nothing else in storage touched and no notification shown; so, on startup, a
  persisted non-empty identifier is gone after \<open>restoreLastSession\<close>.
\<close>

theorem checkSessionStatus_transport_failure_removes_id:
  assumes "json_of r = Inl x"
  shows "localStorage (checkSessionStatus e r sessionId s) =
           AList.delete (lit ''currentSessionId'') (localStorage s) \<and>
         getItem (lit ''currentSessionId'') (checkSessionStatus e r sessionId s) = None \<and>
         notifications (checkSessionStatus e r sessionId s) = notifications s \<and>
         (getItem (lit ''currentSessionId'') s = Some stored \<and> stored \<noteq> [] \<longrightarrow>
            getItem (lit ''currentSessionId'') (restoreLastSession e r s) = None)"
  using assms
  by (simp add: checkSessionStatus_def checkSessionStatus_try_def try_catch_simps
      checkSessionStatus_catch_def restoreLastSession_def
      getItem_def removeItem_def console_log_def fetch_def Let_def delete_conv)

theorem checkSessionStatus_transport_failure_witness:
  "json_of NetworkError = Inl NetworkFailure \<and>
   getItem (lit ''currentSessionId'') polling_sys = Some (lit ''abc123'') \<and>
   lit ''abc123'' \<noteq> [] \<and>
   localStorage (checkSessionStatus example_page NetworkError abc123 polling_sys) = [] \<and>
   getItem (lit ''currentSessionId'') (restoreLastSession example_page NetworkError polling_sys) = None"
proof -
  have h: "json_of NetworkError = Inl NetworkFailure" by simp
  have g: "getItem (lit ''currentSessionId'') polling_sys = Some (lit ''abc123'')"
    by (simp add: getItem_def polling_sys_def)
  have n: "lit ''abc123'' \<noteq> []" by (simp add: lit_def)
  show ?thesis
    using h g n
      checkSessionStatus_transport_failure_removes_id
        [OF h, of example_page abc123 polling_sys "lit ''abc123''"]
    by (simp add: polling_sys_def init_sys_def)
qed

section \<open>Validation before an analysis starts\<close>

lemma startProgressMonitoring_frame:
  "requests (startProgressMonitoring s) = requests s"
  "notifications (startProgressMonitoring s) = notifications s"
  by (simp_all add: startProgressMonitoring_def setInterval_def)

lemma startAnalysis_catch_requests: "requests (startAnalysis_catch e x s) = requests s"
  by (simp add: startAnalysis_catch_def showProgress_frame showNotification_def console_log_def)

lemma startAnalysis_valid_requests:
  assumes "hasForm e" "segmentoByName e = Some v" "3 \<le> length (trim v)"
  shows "requests (startAnalysis e r s) = requests s @ [PostAnalyze (formEntries e)]"
proof -
  have t: "trim v \<noteq> []" using assms(3) by auto
  have v: "validateForm e s = (True, s)"
    using assms t by (simp add: validateForm_def)
  show ?thesis
    using assms(1) v
    by (simp add: startAnalysis_def startAnalysis_try_def and_then_updateProgress
        try_catch_simps Let_def startAnalysis_catch_requests
        startProgressMonitoring_frame setItem_def showNotification_def fetch_def
        updateProgress_frame showProgress_frame
        split: reply.splits option.splits sum.splits)
qed

lemma startAnalysis_invalid:
  assumes "hasForm e" "case segmentoByName e of None \<Rightarrow> True | Some v \<Rightarrow> length (trim v) < 3"
  shows "requests (startAnalysis e r s) = requests s \<and>
         (\<exists>m. notifications (startAnalysis e r s) =
                notifications s @ [\<lparr>n_type = Warning, n_message = m\<rparr>])"
  using assms
  by (auto simp: startAnalysis_def validateForm_def showNotification_def write_dom_def
      split: option.splits)

lemma global_startAnalysis_invalid:
  assumes "(case segmentoById e of None \<Rightarrow> True | Some v \<Rightarrow> trim v = []) \<or>
           (case produtoById e of None \<Rightarrow> True | Some v \<Rightarrow> trim v = [])"
  shows "requests (global_startAnalysis e r s) = requests s \<and>
         global_notifications (global_startAnalysis e r s) =
           global_notifications s @ [\<lparr>n_type = Error, n_message = FillRequiredFields\<rparr>]"
  using assms
  by (auto simp: global_startAnalysis_def global_showNotification_def Let_def
      split: option.splits)

lemma global_startAnalysis_catch_requests:
  "requests (global_startAnalysis_catch e x s) = requests s"
  by (simp add: global_startAnalysis_catch_def global_showNotification_def console_log_def
      write_dom_def Let_def)

lemma global_startAnalysis_try_requests:
  "requests (snd (global_startAnalysis_try e a b r s)) = requests s @ [PostAnalyzeCompleta a b]"
  by (simp add: global_startAnalysis_try_def Let_def fetch_def global_showNotification_def
      console_log_def global_addAnalysisControls_def write_dom_def
      global_startProgressMonitoring_def setInterval_def
      split: reply.splits option.splits sum.splits)

lemma global_startAnalysis_valid_requests:
  assumes "segmentoById e = Some a" "produtoById e = Some b" "trim a \<noteq> []" "trim b \<noteq> []"
  shows "requests (global_startAnalysis e r s) =
           requests s @ [PostAnalyzeCompleta (trim a) (trim b)]"
proof -
  define s1 where "s1 = (if hasStartButton e
     then write_dom [StartButtonDisabled True] (console_log LogStartingAnalysis s)
     else console_log LogStartingAnalysis s)"
  have r1: "requests s1 = requests s"
    by (simp add: s1_def write_dom_def console_log_def)
  obtain x s2 where p: "global_startAnalysis_try e (trim a) (trim b) r s1 = (x, s2)"
    by (cases "global_startAnalysis_try e (trim a) (trim b) r s1")
  have r2: "requests s2 = requests s @ [PostAnalyzeCompleta (trim a) (trim b)]"
    using global_startAnalysis_try_requests [of e "trim a" "trim b" r s1] p r1 by simp
  have "global_startAnalysis e r s =
      try_catch (global_startAnalysis_try e (trim a) (trim b) r s1) (global_startAnalysis_catch e)"
    using assms by (simp add: global_startAnalysis_def Let_def s1_def)
  then show ?thesis
    using p r2
    by (cases x) (simp_all add: try_catch_simps global_startAnalysis_catch_requests)
qed

text \<open>
  C2. Submitting the form runs \<open>startAnalysis\<close> of the class. With the form present, a
  segment field that is missing or whose trimmed value has fewer than 3 characters (the
  empty value included) yields one warning notification and no request. A segment of at
  least 3 trimmed characters passes whatever the other form entries hold, the product
  included, and the request is sent. The free function \<open>startAnalysis\<close> checks only
  that segment and product are present and not blank: if either is missing or blank, it
  shows an error notification and sends no request; if both are present and not blank,
  however short, it sends the request with the trimmed values.
\<close>

theorem startAnalysis_validation:
  "(hasForm e \<and> (case segmentoByName e of None \<Rightarrow> True | Some v \<Rightarrow> length (trim v) < 3) \<longrightarrow>
      requests (startAnalysis e r s) = requests s \<and>
      (\<exists>m. notifications (startAnalysis e r s) =
             notifications s @ [\<lparr>n_type = Warning, n_message = m\<rparr>])) \<and>
   (hasForm e \<and> segmentoByName e = Some v \<and> 3 \<le> length (trim v) \<longrightarrow>
      requests (startAnalysis e r s) = requests s @ [PostAnalyze (formEntries e)]) \<and>
   ((case segmentoById e of None \<Rightarrow> True | Some v \<Rightarrow> trim v = []) \<or>
    (case produtoById e of None \<Rightarrow> True | Some v \<Rightarrow> trim v = []) \<longrightarrow>
      requests (global_startAnalysis e r s) = requests s \<and>
      global_notifications (global_startAnalysis e r s) =
        global_notifications s @ [\<lparr>n_type = Error, n_message = FillRequiredFields\<rparr>]) \<and>
   (segmentoById e = Some a \<and> produtoById e = Some b \<and> trim a \<noteq> [] \<and> trim b \<noteq> [] \<longrightarrow>
      requests (global_startAnalysis e r s) =
        requests s @ [PostAnalyzeCompleta (trim a) (trim b)])"
  using startAnalysis_invalid [of e r s] startAnalysis_valid_requests [of e v r s]
    global_startAnalysis_invalid [of e r s] global_startAnalysis_valid_requests [of e a b r s]
  by blast

theorem startAnalysis_validation_witness:
  "hasForm (example_page\<lparr>segmentoByName := Some (lit '' ab '')\<rparr>) \<and>
   length (trim (lit '' ab '')) < 3 \<and>
   requests (startAnalysis (example_page\<lparr>segmentoByName := Some (lit '' ab '')\<rparr>) started_reply init_sys) = [] \<and>
   notifications (startAnalysis (example_page\<lparr>segmentoByName := Some (lit '' ab '')\<rparr>) started_reply init_sys) =
     [\<lparr>n_type = Warning, n_message = SegmentTooShort\<rparr>] \<and>
   segmentoByName example_page = Some (lit ''Moda'') \<and> 3 \<le> length (trim (lit ''Moda'')) \<and>
   requests (startAnalysis example_page started_reply init_sys) = [PostAnalyze (formEntries example_page)] \<and>
   produtoById example_page = Some [] \<and> trim [] = [] \<and>
   requests (global_startAnalysis example_page started_reply init_sys) = [] \<and>
   trim (lit ''ab'') \<noteq> [] \<and> trim (lit ''x'') \<noteq> [] \<and>
   requests (global_startAnalysis
       (example_page\<lparr>segmentoById := Some (lit ''ab''), produtoById := Some (lit ''x'')\<rparr>)
       started_reply init_sys) = [PostAnalyzeCompleta (lit ''ab'') (lit ''x'')]"
proof -
  have t1: "trim (lit '' ab '') = lit ''ab''"
    by (simp add: trim_def lit_def isWhiteSpace_def)
  have t2: "trim (lit ''Moda'') = lit ''Moda''"
    by (simp add: trim_def lit_def isWhiteSpace_def)
  have t3: "trim [] = []" by (simp add: trim_def)
  have t4: "trim (lit ''ab'') = lit ''ab''"
    by (simp add: trim_def lit_def isWhiteSpace_def)
  have t5: "trim (lit ''x'') = lit ''x''"
    by (simp add: trim_def lit_def isWhiteSpace_def)
  have n: "notifications (startAnalysis (example_page\<lparr>segmentoByName := Some (lit '' ab '')\<rparr>) started_reply init_sys) =
     [\<lparr>n_type = Warning, n_message = SegmentTooShort\<rparr>]"
    by (simp add: startAnalysis_def validateForm_def trim_def isWhiteSpace_def lit_def
        example_page_def showNotification_def write_dom_def init_sys_def)
  show ?thesis
    using n t1 t2 t3 t4 t5
      startAnalysis_validation [of "example_page\<lparr>segmentoByName := Some (lit '' ab '')\<rparr>"
        started_reply init_sys "lit '' ab ''"]
      startAnalysis_validation [of example_page started_reply init_sys "lit ''Moda''"]
      startAnalysis_validation
        [of "example_page\<lparr>segmentoById := Some (lit ''ab''), produtoById := Some (lit ''x'')\<rparr>"
          started_reply init_sys "lit ''Moda''" "lit ''ab''" "lit ''x''"]
    by (simp add: example_page_def init_sys_def lit_def)
qed

text \<open>
  The form holds the segment \<open>Moda\<close> and an empty product: the request is sent, and the
  only notification is the success one.
\<close>

theorem startAnalysis_empty_product_counterexample:
  "formEntries example_page = [(lit ''segmento'', lit ''Moda''), (lit ''produto'', [])] \<and>
   requests (startAnalysis example_page started_reply init_sys) =
     [PostAnalyze [(lit ''segmento'', lit ''Moda''), (lit ''produto'', [])]] \<and>
   notifications (startAnalysis example_page started_reply init_sys) =
     [\<lparr>n_type = Success, n_message = AnalysisStarted abc123\<rparr>]"
  by (simp add: startAnalysis_def startAnalysis_try_def and_then_updateProgress try_catch_simps
      updateProgress_frame validateForm_def example_page_def init_sys_def started_reply_def
      trim_def isWhiteSpace_def lit_def Let_def showProgress_def write_dom_def
      fetch_def member_def abc123_def showNotification_def setItem_def
      startProgressMonitoring_def setInterval_def)

section \<open>Starting a poll while one is running\<close>

lemma startAnalysis_reaches_polling_sys:
  "currentSessionId (startAnalysis example_page started_reply init_sys) = abc123 \<and>
   progressInterval (startAnalysis example_page started_reply init_sys) = Some 1 \<and>
   timers (startAnalysis example_page started_reply init_sys) = [(1, ClassTick)] \<and>
   nextTimer (startAnalysis example_page started_reply init_sys) = 2 \<and>
   localStorage (startAnalysis example_page started_reply init_sys) =
     [(lit ''currentSessionId'', lit ''abc123'')]"
  by (simp add: startAnalysis_def startAnalysis_try_def updateProgress_def and_then_simps
      try_catch_simps validateForm_def example_page_def init_sys_def started_reply_def
      trim_def isWhiteSpace_def lit_def Let_def showProgress_def write_dom_def
      fetch_def member_def abc123_def showNotification_def setItem_def
      startProgressMonitoring_def setInterval_def)

text \<open>
  C1. \<open>startProgressMonitoring\<close> overwrites the handle without clearing the timer it
  named. From the state with one poll running for session \<open>abc123\<close>, a second start
  (here through a successful \<open>resumeSession\<close>) leaves two timers running; the next
  stop (here through a successful \<open>pauseSession\<close>, or a completed poll) clears only the
  newer one, and the handle is then empty while the first timer still runs.
\<close>

theorem second_start_leaves_two_timers:
  "timers polling_sys = [(1, ClassTick)] \<and>
   timers (startProgressMonitoring polling_sys) = [(1, ClassTick), (2, ClassTick)] \<and>
   progressInterval (startProgressMonitoring polling_sys) = Some 2 \<and>
   timers (resumeSession example_page ok_reply polling_sys) = [(1, ClassTick), (2, ClassTick)] \<and>
   timers (pauseSession example_page ok_reply (resumeSession example_page ok_reply polling_sys)) =
     [(1, ClassTick)] \<and>
   progressInterval (pauseSession example_page ok_reply
     (resumeSession example_page ok_reply polling_sys)) = None \<and>
   timers (progressTick example_page completed_reply NetworkError
     (resumeSession example_page ok_reply polling_sys)) = [(1, ClassTick)]"
  by (simp add: polling_sys_def init_sys_def abc123_def lit_def startProgressMonitoring_def
      setInterval_def resumeSession_def resumeSession_try_def pauseSession_def
      pauseSession_try_def try_catch_simps and_then_simps ok_reply_def completed_reply_def
      member_def Let_def fetch_def showNotification_def updateSessionControls_def write_dom_def
      example_page_def stopProgressMonitoring_def clearInterval_def progressTick_def
      progressTick_try_def updateProgress_def showProgress_def removeItem_def
      loadSavedSessions_def loadSavedSessions_catch_def renderEmptySessionsList_def
      console_log_def)

end
